theory Spec2Isabelle
  imports Main
begin

section \<open>Shared Python conventions\<close>

text \<open>
  A Python \<open>dict\<close> with string keys is an association list; \<open>d.get(k, default)\<close> is
  \<open>dict_get\<close>. An \<open>Optional[dict]\<close> or \<open>Optional[str]\<close> is an \<open>option\<close>; the test
  \<open>if x:\<close> is true only for a value that is present and not empty.
\<close>

type_synonym 'v dict = "(string \<times> 'v) list"

definition dict_get :: "'v dict \<Rightarrow> string \<Rightarrow> 'v \<Rightarrow> 'v" where
  "dict_get d k dflt = (case map_of d k of None \<Rightarrow> dflt | Some v \<Rightarrow> v)"

definition str_truthy :: "string option \<Rightarrow> bool" where
  "str_truthy s = (case s of None \<Rightarrow> False | Some cs \<Rightarrow> cs \<noteq> [])"

section \<open>core/temporal\_service.py: workflow identifiers\<close>

text \<open>
  The Temporal client is outside the repository. The model records the calls the service
  makes on it, in order, and takes from the environment whether \<open>handle.cancel()\<close>
  raises for a given workflow id. \<open>str_of\<close> is Python's \<open>str\<close> on the job's UUID.
\<close>

datatype temporal_call =
    StartWorkflow string string
  | CancelWorkflow string

record temporal_client =
  calls :: "temporal_call list"
  cancel_raises :: "string \<Rightarrow> bool"

record 'u sync_job_ref =
  job_id :: 'u

definition start_workflow_id :: "('u \<Rightarrow> string) \<Rightarrow> 'u sync_job_ref \<Rightarrow> string" where
  "start_workflow_id str_of sync_job = ''sync-'' @ str_of (job_id sync_job)"

definition cancel_workflow_id :: "string \<Rightarrow> string" where
  "cancel_workflow_id sync_job_id = ''sync-'' @ sync_job_id"

text \<open>\<open>run_source_connection_workflow\<close>: returns the client and the handle (its workflow id).\<close>

definition run_source_connection_workflow ::
  "('u \<Rightarrow> string) \<Rightarrow> string \<Rightarrow> temporal_client \<Rightarrow> 'u sync_job_ref \<Rightarrow> temporal_client \<times> string" where
  "run_source_connection_workflow str_of task_queue client sync_job =
     (let workflow_id = start_workflow_id str_of sync_job
      in (client\<lparr>calls := calls client @ [StartWorkflow workflow_id task_queue]\<rparr>, workflow_id))"

text \<open>\<open>cancel_sync_job_workflow\<close>: any exception is caught and turns into \<open>False\<close>.\<close>

definition cancel_sync_job_workflow :: "temporal_client \<Rightarrow> string \<Rightarrow> temporal_client \<times> bool" where
  "cancel_sync_job_workflow client sync_job_id =
     (let workflow_id = cancel_workflow_id sync_job_id;
          client' = client\<lparr>calls := calls client @ [CancelWorkflow workflow_id]\<rparr>
      in if cancel_raises client workflow_id then (client', False) else (client', True))"

section \<open>platform/auth/services.py: client credentials\<close>

record 'v integration_config =
  client_id :: 'v
  client_secret :: 'v

text \<open>
  \<open>_get_client_credentials\<close>: start from the integration config, let a non-empty
  \<open>decrypted_credential\<close> override it, then let a non-empty \<open>auth_fields\<close> override that.
\<close>

definition get_client_credentials ::
  "('v, 'x) integration_config_scheme \<Rightarrow> 'v dict option \<Rightarrow> 'v dict option \<Rightarrow> 'v \<times> 'v" where
  "get_client_credentials cfg auth_fields decrypted_credential =
     (let cid0 = client_id cfg;
          cs0 = client_secret cfg;
          (cid1, cs1) =
            (case decrypted_credential of
               None \<Rightarrow> (cid0, cs0)
             | Some d \<Rightarrow>
                 if d \<noteq> []
                 then (dict_get d ''client_id'' cid0, dict_get d ''client_secret'' cs0)
                 else (cid0, cs0));
          (cid2, cs2) =
            (case auth_fields of
               None \<Rightarrow> (cid1, cs1)
             | Some a \<Rightarrow>
                 if a \<noteq> []
                 then (dict_get a ''client_id'' cid1, dict_get a ''client_secret'' cs1)
                 else (cid1, cs1))
      in (cid2, cs2))"

text \<open>Whether a key is present in an optional dict, and with which value.\<close>

definition dict_lookup :: "'v dict option \<Rightarrow> string \<Rightarrow> 'v option" where
  "dict_lookup d k = (case d of None \<Rightarrow> None | Some kvs \<Rightarrow> map_of kvs k)"

section \<open>app/core/dag\_service.py: the initial DAG\<close>

text \<open>
  UUIDs are natural numbers. \<open>uuid4()\<close> is the next value of a supply \<open>gen\<close>, read at a
  counter that every call advances. The CRUD layer is outside the file: each lookup is a
  field of \<open>dag_db\<close> and answers \<open>None\<close> for a missing row.
\<close>

type_synonym uuid = nat

datatype http_error =
    HTTPException nat string
  | AttributeError string

record sync_row =
  sync_name :: string
  source_connection_id :: uuid
  destination_connection_id :: "uuid option"

record connection_row =
  connection_id :: uuid
  short_name :: string

record source_row =
  source_name :: string
  output_entity_definition_ids :: "uuid list"

record destination_row =
  destination_name :: string

record entity_definition =
  entity_definition_id :: uuid
  entity_definition_name :: string

record dag_db =
  sync_get :: "uuid \<Rightarrow> sync_row option"
  connection_get :: "uuid \<Rightarrow> connection_row option"
  source_get_by_short_name :: "string \<Rightarrow> source_row option"
  destination_get_by_short_name :: "string \<Rightarrow> destination_row option"
  entity_definition_get_multi_by_ids :: "uuid list \<Rightarrow> entity_definition list"

record DagNodeCreate =
  node_id :: uuid
  node_type :: string
  node_name :: string
  node_connection_id :: "uuid option"
  node_entity_definition_id :: "uuid option"
  node_config :: "string dict option"

record DagEdgeCreate =
  from_node_id :: uuid
  to_node_id :: uuid

record SyncDagDefinitionCreate =
  dag_name :: string
  dag_sync_id :: uuid
  nodes :: "DagNodeCreate list"
  edges :: "DagEdgeCreate list"

text \<open>Python's \<open>sub in s\<close> on strings.\<close>

fun str_contains :: "string \<Rightarrow> string \<Rightarrow> bool" where
  "str_contains sub [] = (sub = [])"
| "str_contains sub (c # cs) = (take (length sub) (c # cs) = sub \<or> str_contains sub cs)"

text \<open>
  The loop over the entity definitions. The id is drawn before the name is tested, so a
  skipped definition still consumes one.
\<close>

fun entity_nodes_loop ::
  "(nat \<Rightarrow> uuid) \<Rightarrow> uuid \<Rightarrow> entity_definition list \<Rightarrow>
   nat \<times> DagNodeCreate list \<times> DagEdgeCreate list \<Rightarrow> nat \<times> DagNodeCreate list \<times> DagEdgeCreate list" where
  "entity_nodes_loop gen source_node_id [] st = st"
| "entity_nodes_loop gen source_node_id (ed # eds) (k, ns, es) =
     (let entity_node_id = gen k in
      if str_contains ''Workspace'' (entity_definition_name ed)
         \<or> str_contains ''Comment'' (entity_definition_name ed)
      then entity_nodes_loop gen source_node_id eds (Suc k, ns, es)
      else entity_nodes_loop gen source_node_id eds
             (Suc k,
              ns @ [\<lparr>node_id = entity_node_id, node_type = ''entity'',
                      node_name = entity_definition_name ed, node_connection_id = None,
                      node_entity_definition_id = Some (entity_definition_id ed),
                      node_config = None\<rparr>],
              es @ [\<lparr>from_node_id = source_node_id, to_node_id = entity_node_id\<rparr>]))"

text \<open>The slice \<open>nodes[1:-1]\<close>.\<close>

definition inner_nodes :: "'a list \<Rightarrow> 'a list" where
  "inner_nodes xs = butlast (tl xs)"

text \<open>The destination node: from the sync's destination connection, or the native one.\<close>

definition destination_node :: "dag_db \<Rightarrow> sync_row \<Rightarrow> uuid \<Rightarrow> http_error + DagNodeCreate" where
  "destination_node db sync destination_node_id =
     (case destination_connection_id sync of
        Some dcid \<Rightarrow>
          (case connection_get db dcid of
             None \<Rightarrow> Inl (HTTPException 404 ''Destination connection not found'')
           | Some destination_connection \<Rightarrow>
               (case destination_get_by_short_name db (short_name destination_connection) of
                  None \<Rightarrow> Inl (AttributeError ''name'')
                | Some destination \<Rightarrow>
                    Inr \<lparr>node_id = destination_node_id, node_type = ''destination'',
                         node_name = destination_name destination,
                         node_connection_id = Some (connection_id destination_connection),
                         node_entity_definition_id = None, node_config = None\<rparr>))
      | None \<Rightarrow>
          Inr \<lparr>node_id = destination_node_id, node_type = ''destination'',
               node_name = ''Native Weaviate'', node_connection_id = None,
               node_entity_definition_id = None, node_config = None\<rparr>)"

text \<open>
  \<open>create_initial_dag\<close>, up to the \<open>SyncDagDefinitionCreate\<close> it hands to the CRUD layer
  for storing. It returns the advanced counter as well.
\<close>

definition create_initial_dag ::
  "(nat \<Rightarrow> uuid) \<Rightarrow> nat \<Rightarrow> dag_db \<Rightarrow> uuid \<Rightarrow> http_error + (nat \<times> SyncDagDefinitionCreate)" where
  "create_initial_dag gen k0 db sync_id =
     (case sync_get db sync_id of
        None \<Rightarrow> Inl (AttributeError ''source_connection_id'')
      | Some sync \<Rightarrow>
     (case connection_get db (source_connection_id sync) of
        None \<Rightarrow> Inl (HTTPException 404 ''Source connection not found'')
      | Some source_connection \<Rightarrow>
     (case source_get_by_short_name db (short_name source_connection) of
        None \<Rightarrow> Inl (AttributeError ''output_entity_definition_ids'')
      | Some source \<Rightarrow>
          (let entity_definitions =
                 entity_definition_get_multi_by_ids db (output_entity_definition_ids source);
               source_node_id = gen k0;
               source_node = \<lparr>node_id = source_node_id, node_type = ''source'',
                               node_name = source_name source,
                               node_connection_id = Some (connection_id source_connection),
                               node_entity_definition_id = None, node_config = None\<rparr>;
               (k1, ns1, es1) =
                 entity_nodes_loop gen source_node_id entity_definitions (Suc k0, [source_node], []);
               file_entity_node_id = gen k1;
               file_entity_node = \<lparr>node_id = file_entity_node_id, node_type = ''entity'',
                                    node_name = ''AsanaPDF'', node_connection_id = None,
                                    node_entity_definition_id = None,
                                    node_config = Some [(''type'', ''file'')]\<rparr>;
               ns2 = ns1 @ [file_entity_node];
               es2 = es1 @ [\<lparr>from_node_id = source_node_id, to_node_id = file_entity_node_id\<rparr>];
               destination_node_id = gen (Suc k1)
           in case destination_node db sync destination_node_id of
                Inl e \<Rightarrow> Inl e
              | Inr dn \<Rightarrow>
                  (let ns3 = ns2 @ [dn];
                       es3 = es2 @ map (\<lambda>node. \<lparr>from_node_id = node_id node,
                                                  to_node_id = destination_node_id\<rparr>)
                                     (inner_nodes ns3)
                   in Inr (Suc (Suc k1),
                           \<lparr>dag_name = ''DAG for '' @ sync_name sync, dag_sync_id = sync_id,
                            nodes = ns3, edges = es3\<rparr>))))))"

text \<open>
  The spec's invariant: a path follows edges; an entity node is dead when no source node
  reaches it or it reaches no destination node.
\<close>

inductive dag_path :: "DagEdgeCreate list \<Rightarrow> uuid \<Rightarrow> uuid \<Rightarrow> bool" for es where
  dag_path_edge: "\<lparr>from_node_id = a, to_node_id = b\<rparr> \<in> set es \<Longrightarrow> dag_path es a b"
| dag_path_step: "\<lparr>from_node_id = a, to_node_id = b\<rparr> \<in> set es \<Longrightarrow> dag_path es b c \<Longrightarrow> dag_path es a c"

definition dead_node :: "SyncDagDefinitionCreate \<Rightarrow> DagNodeCreate \<Rightarrow> bool" where
  "dead_node dag n =
     (\<not> (\<exists>s \<in> set (nodes dag). node_type s = ''source'' \<and> dag_path (edges dag) (node_id s) (node_id n))
      \<or> \<not> (\<exists>d \<in> set (nodes dag). node_type d = ''destination'' \<and> dag_path (edges dag) (node_id n) (node_id d)))"

text \<open>A small database: one sync with no destination connection, a source with two entity definitions.\<close>

definition example_dag_db :: dag_db where
  "example_dag_db =
     \<lparr>sync_get = (\<lambda>i. if i = 1 then Some \<lparr>sync_name = ''s'', source_connection_id = 2,
                                            destination_connection_id = None\<rparr> else None),
      connection_get = (\<lambda>i. if i = 2 then Some \<lparr>connection_id = 2, short_name = ''asana''\<rparr> else None),
      source_get_by_short_name =
        (\<lambda>n. if n = ''asana''
              then Some \<lparr>source_name = ''Asana'', output_entity_definition_ids = [7, 8]\<rparr> else None),
      destination_get_by_short_name = (\<lambda>n. None),
      entity_definition_get_multi_by_ids =
        (\<lambda>ids. [\<lparr>entity_definition_id = 7, entity_definition_name = ''AsanaTask''\<rparr>,
                 \<lparr>entity_definition_id = 8, entity_definition_name = ''AsanaComment''\<rparr>])\<rparr>"

definition example_dag :: SyncDagDefinitionCreate where
  "example_dag =
     \<lparr>dag_name = ''DAG for s'', dag_sync_id = 1,
      nodes =
        [\<lparr>node_id = 100, node_type = ''source'', node_name = ''Asana'',
           node_connection_id = Some 2, node_entity_definition_id = None, node_config = None\<rparr>,
         \<lparr>node_id = 101, node_type = ''entity'', node_name = ''AsanaTask'',
           node_connection_id = None, node_entity_definition_id = Some 7, node_config = None\<rparr>,
         \<lparr>node_id = 103, node_type = ''entity'', node_name = ''AsanaPDF'',
           node_connection_id = None, node_entity_definition_id = None,
           node_config = Some [(''type'', ''file'')]\<rparr>,
         \<lparr>node_id = 104, node_type = ''destination'', node_name = ''Native Weaviate'',
           node_connection_id = None, node_entity_definition_id = None, node_config = None\<rparr>],
      edges =
        [\<lparr>from_node_id = 100, to_node_id = 101\<rparr>, \<lparr>from_node_id = 100, to_node_id = 103\<rparr>,
         \<lparr>from_node_id = 101, to_node_id = 104\<rparr>, \<lparr>from_node_id = 103, to_node_id = 104\<rparr>]\<rparr>"

section \<open>platform/temporal/activities.py: the sync activity and its cancellation\<close>

text \<open>
  The activity runs on an event loop together with the sync task and the workflow engine.
  The model fixes what the environment does at each point where the code awaits:
  \<^item> \<open>wait_events\<close>: what each \<open>wait_for(shield(sync_task), timeout=1)\<close> ends with, in order:
    the timeout, the task's normal end, an exception of the task (\<open>TaskTimedOut\<close> when that
    exception is itself an \<open>asyncio.TimeoutError\<close>, \<open>TaskRaised\<close> for any other), or the
    cancellation of the activity. When the list is used up the loop is still waiting;
  \<^item> \<open>await_after_cancel\<close>: how \<open>await sync_task\<close> ends after \<open>sync_task.cancel()\<close>;
  \<^item> \<open>update_status_raises\<close>: whether the job service's \<open>update_status\<close> raises;
  \<^item> \<open>now\<close>: the value of \<open>utc_now_naive()\<close>.
  The calls the activity makes are recorded in order in \<open>trace\<close>. The sync task writes
  to the job store as well; \<open>jobs\<close> is the store as the activity finds it.
\<close>

datatype job_status = PENDING | IN_PROGRESS | COMPLETED | FAILED | CANCELLED

record sync_job_row =
  status :: job_status
  error :: "string option"
  failed_at :: "nat option"

type_synonym job_store = "uuid \<Rightarrow> sync_job_row"

datatype wait_event = Timeout | TaskDone | TaskRaised string | TaskTimedOut | Cancelled

datatype loop_exit = ExitDone | ExitRaised string | ExitCancelled

datatype await_outcome = AwaitCancelled | AwaitReturned | AwaitRaised string

datatype activity_exc = CancelledError | Exception string | ValueError string

datatype activity_result = Returned | Raised activity_exc

datatype activity_effect =
    CreateSyncTask
  | WaitFor nat
  | Heartbeat string
  | CancelSyncTask
  | AwaitSyncTask
  | UpdateStatus uuid job_status "string option" "nat option"
  | LogError string

record activity_env =
  wait_events :: "wait_event list"
  await_after_cancel :: await_outcome
  update_status_raises :: bool
  now :: nat

record activity_state =
  jobs :: job_store
  trace :: "activity_effect list"

text \<open>
  Modelled from the spec: \<open>sync_job_service.update_status\<close>, whose module is not among the
  sources. The job persistence interface of the spec offers "update job
  status/counters/error": a call that succeeds stores the status, the error and the
  failure time on the job. A call that raises stores nothing.
\<close>

definition update_status ::
  "bool \<Rightarrow> activity_state \<Rightarrow> uuid \<Rightarrow> job_status \<Rightarrow> string option \<Rightarrow> nat option \<Rightarrow>
   activity_exc option \<times> activity_state" where
  "update_status raises st sync_job_id s err fa =
     (let st' = st\<lparr>trace := trace st @ [UpdateStatus sync_job_id s err fa]\<rparr>
      in if raises then (Some (Exception ''update_status failed''), st')
         else (None, st'\<lparr>jobs := (jobs st')(sync_job_id := \<lparr>status = s, error = err, failed_at = fa\<rparr>)\<rparr>))"

text \<open>
  The supervising loop \<open>while True\<close>: wait on the shielded task for one second; on an
  \<open>asyncio.TimeoutError\<close> send a heartbeat and wait again; leave on anything else. The
  clause \<open>except asyncio.TimeoutError\<close> cannot tell the timeout of the wait from a
  \<open>TimeoutError\<close> with which the sync task itself has ended, which \<open>wait_for\<close> raises
  again: both send a heartbeat and go round.
\<close>

fun supervise :: "wait_event list \<Rightarrow> activity_effect list \<Rightarrow> (loop_exit \<times> activity_effect list) option" where
  "supervise [] tr = None"
| "supervise (Timeout # evs) tr = supervise evs (tr @ [WaitFor 1, Heartbeat ''Sync in progress''])"
| "supervise (TaskDone # evs) tr = Some (ExitDone, tr @ [WaitFor 1])"
| "supervise (TaskRaised e # evs) tr = Some (ExitRaised e, tr @ [WaitFor 1])"
| "supervise (TaskTimedOut # evs) tr = supervise evs (tr @ [WaitFor 1, Heartbeat ''Sync in progress''])"
| "supervise (Cancelled # evs) tr = Some (ExitCancelled, tr @ [WaitFor 1])"

text \<open>
  The \<open>except asyncio.CancelledError\<close> handler. Only \<open>CancelledError\<close> is suppressed around
  \<open>await sync_task\<close>: another exception of the task leaves the handler at once. A failing
  status update is logged and swallowed; the cancellation is raised again.
\<close>

definition on_cancelled :: "activity_env \<Rightarrow> activity_state \<Rightarrow> uuid \<Rightarrow> activity_result \<times> activity_state" where
  "on_cancelled env st sync_job_id =
     (let st1 = st\<lparr>trace := trace st @ [CancelSyncTask, AwaitSyncTask]\<rparr>
      in case await_after_cancel env of
           AwaitRaised e \<Rightarrow> (Raised (Exception e), st1)
         | _ \<Rightarrow>
             (case update_status (update_status_raises env) st1 sync_job_id CANCELLED
                     (Some ''Workflow was cancelled'') (Some (now env)) of
                (None, st2) \<Rightarrow> (Raised CancelledError, st2)
              | (Some status_err, st2) \<Rightarrow>
                  (Raised CancelledError,
                   st2\<lparr>trace := trace st2 @ [LogError ''Failed to update job to CANCELLED'']\<rparr>)))"

text \<open>\<open>run_sync_activity\<close>: \<open>None\<close> while the supervising loop has not left.\<close>

definition run_sync_activity ::
  "activity_env \<Rightarrow> job_store \<Rightarrow> uuid \<Rightarrow> (activity_result \<times> activity_state) option" where
  "run_sync_activity env jobs0 sync_job_id =
     (case supervise (wait_events env) [CreateSyncTask] of
        None \<Rightarrow> None
      | Some (ExitDone, tr) \<Rightarrow> Some (Returned, \<lparr>jobs = jobs0, trace = tr\<rparr>)
      | Some (ExitRaised e, tr) \<Rightarrow>
          Some (Raised (Exception e), \<lparr>jobs = jobs0, trace = tr @ [LogError ''Failed sync activity'']\<rparr>)
      | Some (ExitCancelled, tr) \<Rightarrow>
          Some (on_cancelled env \<lparr>jobs = jobs0, trace = tr\<rparr> sync_job_id))"

text \<open>
  \<open>mark_sync_job_cancelled_activity\<close>, the path taken when the workflow is cancelled
  before the activity starts. \<open>parse_uuid\<close> is \<open>UUID(sync_job_id)\<close>, which raises
  \<open>ValueError\<close> on a malformed string; \<open>fromisoformat\<close> is \<open>datetime.fromisoformat\<close>,
  whose failure leaves \<open>failed_at\<close> empty. An exception of \<open>update_status\<close> is not caught.
\<close>

definition mark_sync_job_cancelled_activity ::
  "(string \<Rightarrow> uuid option) \<Rightarrow> (string \<Rightarrow> nat option) \<Rightarrow> bool \<Rightarrow> activity_state \<Rightarrow>
   string \<Rightarrow> string option \<Rightarrow> string option \<Rightarrow> activity_result \<times> activity_state" where
  "mark_sync_job_cancelled_activity parse_uuid fromisoformat raises st sync_job_id reason when_iso =
     (let failed_at = (case when_iso of
                         None \<Rightarrow> None
                       | Some w \<Rightarrow> if w \<noteq> [] then fromisoformat w else None)
      in case parse_uuid sync_job_id of
           None \<Rightarrow> (Raised (ValueError ''badly formed hexadecimal UUID string''), st)
         | Some jid \<Rightarrow>
             (case update_status raises st jid CANCELLED reason failed_at of
                (None, st') \<Rightarrow> (Returned, st')
              | (Some e, st') \<Rightarrow> (Raised e, st')))"

definition is_heartbeat :: "activity_effect \<Rightarrow> bool" where
  "is_heartbeat x = (case x of Heartbeat m \<Rightarrow> True | _ \<Rightarrow> False)"

text \<open>A job store in which every job is running.\<close>

definition all_in_progress :: job_store where
  "all_in_progress = (\<lambda>j. \<lparr>status = IN_PROGRESS, error = None, failed_at = None\<rparr>)"

section \<open>platform/temporal/activities.py: creating a sync job\<close>

text \<open>
  Other workers change the job table while the activity sleeps: \<open>db_at t\<close> is the table as
  a query finds it after the activity has waited \<open>t\<close> seconds. The sync id is taken as
  already parsed; \<open>new_id\<close> is the id the database gives the new job.
\<close>

record sync_job =
  sj_id :: uuid
  sj_sync_id :: uuid
  sj_status :: job_status

type_synonym job_table = "sync_job list"

datatype create_effect = WaitHeartbeat nat | Sleep nat

datatype create_error = AlreadyRunning | WaitTimeout nat

definition max_wait_time :: nat where
  "max_wait_time = 60 * 60"

definition wait_interval :: nat where
  "wait_interval = 30"

text \<open>
  Modelled from the spec: \<open>crud.sync_job.get_all_by_sync_id\<close> and \<open>crud.sync_job.create\<close>,
  whose module is not among the sources. The first is the spec's "fetch currently-running
  jobs for a given sync configuration", restricted to the statuses asked for; the second
  is its "create job", and a job starts as \<open>pending\<close>.
\<close>

definition get_all_by_sync_id :: "job_table \<Rightarrow> uuid \<Rightarrow> job_status list \<Rightarrow> sync_job list" where
  "get_all_by_sync_id db sync_id statuses =
     filter (\<lambda>jb. sj_sync_id jb = sync_id \<and> sj_status jb \<in> set statuses) db"

definition sync_job_create :: "job_table \<Rightarrow> uuid \<Rightarrow> uuid \<Rightarrow> sync_job \<times> job_table" where
  "sync_job_create db new_id sync_id =
     (let jb = \<lparr>sj_id = new_id, sj_sync_id = sync_id, sj_status = PENDING\<rparr> in (jb, db @ [jb]))"

text \<open>
  The \<open>while total_waited < max_wait_time ... else\<close> loop: heartbeat, sleep, count the
  sleep, query again; a query that finds nothing breaks out with the time waited, and the
  \<open>else\<close> branch of a loop that was not broken raises.
\<close>

function wait_for_running_jobs ::
  "(nat \<Rightarrow> job_table) \<Rightarrow> uuid \<Rightarrow> nat \<Rightarrow> create_effect list \<Rightarrow> (create_error + nat) \<times> create_effect list" where
  "wait_for_running_jobs db_at sync_id total_waited tr =
     (if total_waited < max_wait_time
      then (let tr' = tr @ [WaitHeartbeat total_waited, Sleep wait_interval];
                total_waited' = total_waited + wait_interval;
                still_running = get_all_by_sync_id (db_at total_waited') sync_id [PENDING, IN_PROGRESS]
            in if still_running = [] then (Inr total_waited', tr')
               else wait_for_running_jobs db_at sync_id total_waited' tr')
      else (Inl (WaitTimeout max_wait_time), tr))"
  by pat_completeness auto
termination
  by (relation "measure (\<lambda>(db_at, sync_id, total_waited, tr). max_wait_time - total_waited)")
     (auto simp: wait_interval_def)

declare wait_for_running_jobs.simps [simp del]

text \<open>\<open>create_sync_job_activity\<close>: the outcome, the new table when a job was created, the calls made while waiting.\<close>

definition create_sync_job_activity ::
  "(nat \<Rightarrow> job_table) \<Rightarrow> uuid \<Rightarrow> uuid \<Rightarrow> bool \<Rightarrow>
   (create_error + sync_job \<times> job_table) \<times> create_effect list" where
  "create_sync_job_activity db_at new_id sync_id force_full_sync =
     (let running_jobs = get_all_by_sync_id (db_at 0) sync_id [PENDING, IN_PROGRESS]
      in if running_jobs \<noteq> []
         then (if force_full_sync
               then (case wait_for_running_jobs db_at sync_id 0 [] of
                       (Inl e, tr) \<Rightarrow> (Inl e, tr)
                     | (Inr waited, tr) \<Rightarrow> (Inr (sync_job_create (db_at waited) new_id sync_id), tr))
               else (Inl AlreadyRunning, []))
         else (Inr (sync_job_create (db_at 0) new_id sync_id), []))"

text \<open>The jobs of a sync that are pending or in progress, and the calls of \<open>n\<close> rounds of waiting.\<close>

definition running :: "job_table \<Rightarrow> uuid \<Rightarrow> sync_job list" where
  "running db sync_id = get_all_by_sync_id db sync_id [PENDING, IN_PROGRESS]"

definition wait_rounds :: "nat \<Rightarrow> nat \<Rightarrow> create_effect list" where
  "wait_rounds t n = concat (map (\<lambda>i. [WaitHeartbeat (t + 30 * i), Sleep 30]) [0..<n])"

text \<open>A table whose only job, of sync 1, is in progress until 60 seconds have passed.\<close>

definition example_db_at :: "nat \<Rightarrow> job_table" where
  "example_db_at t =
     [\<lparr>sj_id = 10, sj_sync_id = 1, sj_status = (if t < 60 then IN_PROGRESS else COMPLETED)\<rparr>]"

definition stuck_db_at :: "nat \<Rightarrow> job_table" where
  "stuck_db_at t = [\<lparr>sj_id = 10, sj_sync_id = 1, sj_status = IN_PROGRESS\<rparr>]"

section \<open>platform/file\_handling/file\_manager.py: saving a file entity\<close>

text \<open>
  Bytes are numbers below 256, a chunk is a list of them. A Python string that can hold
  any character (the entity's name, a path) is the list of its code points. The stream is
  the list of what its iteration yields: chunks, and possibly an exception, after which
  nothing is read. The file system is a map from paths to contents. The environment
  supplies what the function takes from the library and the operating system:
  \<open>hashlib.sha256(content).hexdigest()\<close>, \<open>str\<close> of a UUID, the limit printed in gigabytes
  with one decimal, \<open>str.isalnum\<close> and \<open>str.isspace\<close> on a character, and whether opening
  a path for writing raises (as it does for a file name that is too long). Once the file
  is open, writing, reading back and removing do not fail in the model.
\<close>

type_synonym bytes = "nat list"

type_synonym pystr = "nat list"

type_synonym file_system = "pystr \<Rightarrow> bytes option"

datatype stream_item = Chunk bytes | StreamRaises string

datatype meta_value = MetaStr string | MetaInt nat

record file_entity =
  download_url :: "string option"
  name :: pystr
  should_skip :: bool
  metadata :: "meta_value dict option"
  checksum :: "string option"
  local_path :: "pystr option"
  file_uuid :: "uuid option"
  total_size :: "nat option"

record file_env =
  fe_sha256_hex :: "bytes \<Rightarrow> string"
  fe_str_of :: "uuid \<Rightarrow> pystr"
  fe_fmt_gb :: "nat \<Rightarrow> string"
  fe_isalnum :: "nat \<Rightarrow> bool"
  fe_isspace :: "nat \<Rightarrow> bool"
  fe_open_raises :: "pystr \<Rightarrow> string option"

text \<open>\<open>d[k] = v\<close> on a dict: replace the value of a key that is there, add the key otherwise.\<close>

fun dict_set :: "'v dict \<Rightarrow> string \<Rightarrow> 'v \<Rightarrow> 'v dict" where
  "dict_set [] k v = [(k, v)]"
| "dict_set ((k', v') # kvs) k v = (if k' = k then (k, v) # kvs else (k', v') # dict_set kvs k v)"

text \<open>The code points of an ASCII literal.\<close>

definition codes :: "string \<Rightarrow> pystr" where
  "codes s = map of_char s"

text \<open>
  \<open>_safe_filename\<close>: keep the characters that are alphanumeric or one of \<open>._- \<close>, then
  \<open>strip()\<close> the whitespace at both ends.
\<close>

definition strip :: "(nat \<Rightarrow> bool) \<Rightarrow> pystr \<Rightarrow> pystr" where
  "strip isspace s = rev (dropWhile isspace (rev (dropWhile isspace s)))"

definition safe_filename :: "file_env \<Rightarrow> pystr \<Rightarrow> pystr" where
  "safe_filename env filename =
     strip (fe_isspace env) (filter (\<lambda>c. fe_isalnum env c \<or> c \<in> set (codes ''._- '')) filename)"

definition base_temp_dir :: pystr where
  "base_temp_dir = codes ''/tmp/airweave''"

definition temp_path_of :: "file_env \<Rightarrow> uuid \<Rightarrow> pystr \<Rightarrow> pystr" where
  "temp_path_of env fid filename =
     base_temp_dir @ codes ''/'' @ fe_str_of env fid @ codes ''-'' @ safe_filename env filename"

text \<open>
  The loop \<open>async for chunk in stream\<close>: count the chunk first; past the limit stop before
  writing it; otherwise append it to the file and go on.
\<close>

datatype save_outcome = Saved nat bytes | Exceeded nat | Failed string

fun save_chunks :: "nat \<Rightarrow> stream_item list \<Rightarrow> nat \<Rightarrow> bytes \<Rightarrow> save_outcome" where
  "save_chunks max_size [] downloaded_size written = Saved downloaded_size written"
| "save_chunks max_size (StreamRaises e # rest) downloaded_size written = Failed e"
| "save_chunks max_size (Chunk chunk # rest) downloaded_size written =
     (let downloaded_size' = downloaded_size + length chunk
      in if downloaded_size' > max_size then Exceeded downloaded_size'
         else save_chunks max_size rest downloaded_size' (written @ chunk))"

text \<open>
  \<open>handle_file_entity\<close>. An entity without a download URL is returned as it came. An
  exception, of opening the file or of the stream, removes the file if it is there and is
  raised again.
\<close>

definition handle_file_entity ::
  "file_env \<Rightarrow> uuid \<Rightarrow> file_system \<Rightarrow> stream_item list \<Rightarrow> file_entity \<Rightarrow> nat \<Rightarrow>
   (string + file_entity) \<times> file_system" where
  "handle_file_entity env new_uuid fs stream entity max_size =
     (if \<not> str_truthy (download_url entity) then (Inr entity, fs)
      else
        (let entity1 = entity\<lparr>should_skip := False\<rparr>;
             temp_path = temp_path_of env new_uuid (name entity)
         in case fe_open_raises env temp_path of
              Some e \<Rightarrow> (Inl e, fs(temp_path := None))
            | None \<Rightarrow>
                (case save_chunks max_size stream 0 [] of
                   Exceeded downloaded_size \<Rightarrow>
                     (let md = (case metadata entity1 of None \<Rightarrow> [] | Some m \<Rightarrow> m);
                          md1 = dict_set md ''error''
                                  (MetaStr (''File too large (exceeded '' @ fe_fmt_gb env max_size
                                            @ ''GB limit)''));
                          md2 = dict_set md1 ''size_exceeded'' (MetaInt downloaded_size)
                      in (Inr (entity1\<lparr>metadata := Some md2, should_skip := True\<rparr>),
                          fs(temp_path := None)))
                 | Failed e \<Rightarrow> (Inl e, fs(temp_path := None))
                 | Saved downloaded_size content \<Rightarrow>
                     (Inr (entity1\<lparr>checksum := Some (fe_sha256_hex env content),
                                   local_path := Some temp_path,
                                   file_uuid := Some new_uuid,
                                   total_size := Some downloaded_size\<rparr>),
                      fs(temp_path := Some content)))))"

text \<open>The total number of bytes of a list of chunks.\<close>

definition byte_count :: "bytes list \<Rightarrow> nat" where
  "byte_count chunks = length (concat chunks)"





section \<open>platform/sync/factory.py: the sync factory\<close>

text \<open>
  The CRUD layer is outside the file: each lookup is a field of \<open>factory_db\<close> and answers
  \<open>None\<close> for a missing row. The environment supplies what the factory calls in other
  modules: the decryption of stored credentials, the token provider's \<open>get_valid_token\<close>,
  the validation of a credential against an auth config class, and whether a source class
  has \<open>set_token_provider\<close>. The members of \<open>AuthType\<close> that the sources name are
  constructors; any other member is \<open>other_auth\<close>.
\<close>

datatype AuthType =
    oauth2
  | oauth2_with_refresh
  | oauth2_with_refresh_rotating
  | other_auth string

datatype factory_error =
    NotFoundException string
  | ValidationError string
  | IndexError string
  | TokenRefreshError string

record fsync =
  fsync_id :: uuid
  fsync_source_connection_id :: uuid
  fsync_destination_connection_ids :: "uuid list"

record fconnection =
  conn_id :: uuid
  conn_short_name :: string
  conn_integration_credential_id :: "uuid option"

record source_connection_record =
  config_fields :: "string dict option"

record source_model =
  sm_short_name :: string
  sm_auth_type :: "AuthType option"
  sm_auth_config_class :: "string option"

record 'enc integration_credential =
  encrypted_credentials :: 'enc

record destination_model =
  dm_short_name :: string
  dm_class_name :: string

record 'enc factory_db =
  fdb_connection_get :: "uuid \<Rightarrow> fconnection option"
  fdb_source_connection_get_by_sync_id :: "uuid \<Rightarrow> source_connection_record option"
  fdb_source_get_by_short_name :: "string \<Rightarrow> source_model option"
  fdb_integration_credential_get :: "uuid \<Rightarrow> 'enc integration_credential option"
  fdb_destination_get_by_short_name :: "string \<Rightarrow> destination_model option"

record TokenProvider =
  tp_integration_short_name :: string
  tp_connection_id :: uuid
  tp_decrypted_credential :: "string dict"
  tp_white_label :: "string option"

datatype source_credentials =
    AccessToken string
  | ValidatedAuthConfig string "string dict"
  | DecryptedCredential "string dict"

record source_instance =
  si_class :: string
  si_credentials :: source_credentials
  si_config :: "string dict"
  si_token_provider :: "TokenProvider option"

record destination_instance =
  di_class :: string
  di_collection_id :: uuid

record 'enc factory_env =
  env_decrypt :: "'enc \<Rightarrow> string dict"
  env_get_valid_token :: "TokenProvider \<Rightarrow> factory_error + string"
  env_auth_config_validate :: "string \<Rightarrow> string dict \<Rightarrow> factory_error + string dict"
  env_has_set_token_provider :: "string \<Rightarrow> bool"

text \<open>\<open>_get_source_config\<close>.\<close>

definition get_source_config ::
  "'enc factory_db \<Rightarrow> fsync \<Rightarrow> factory_error + (fconnection \<times> string dict \<times> source_model)" where
  "get_source_config db sync =
     (case fdb_connection_get db (fsync_source_connection_id sync) of
        None \<Rightarrow> Inl (NotFoundException ''Source connection not found'')
      | Some source_connection \<Rightarrow>
     (case fdb_source_connection_get_by_sync_id db (fsync_id sync) of
        None \<Rightarrow> Inl (NotFoundException ''Source connection record not found'')
      | Some source_connection_obj \<Rightarrow>
          (let cfg = (case config_fields source_connection_obj of None \<Rightarrow> [] | Some c \<Rightarrow> c)
           in case fdb_source_get_by_short_name db (conn_short_name source_connection) of
                None \<Rightarrow> Inl (NotFoundException (''Source not found: '' @ conn_short_name source_connection))
              | Some source_model \<Rightarrow> Inr (source_connection, cfg, source_model))))"

text \<open>\<open>_create_source_with_token\<close>.\<close>

definition create_source_with_token :: "source_model \<Rightarrow> string \<Rightarrow> string dict \<Rightarrow> source_instance" where
  "create_source_with_token source_class access_token cfg =
     \<lparr>si_class = sm_short_name source_class, si_credentials = AccessToken access_token,
      si_config = cfg, si_token_provider = None\<rparr>"

text \<open>\<open>_get_integration_credential\<close>.\<close>

definition get_integration_credential ::
  "'enc factory_db \<Rightarrow> uuid \<Rightarrow> factory_error + 'enc integration_credential" where
  "get_integration_credential db credential_id =
     (case fdb_integration_credential_get db credential_id of
        None \<Rightarrow> Inl (NotFoundException ''Source integration credential not found'')
      | Some credential \<Rightarrow> Inr credential)"

text \<open>\<open>_create_token_provider_if_needed\<close>.\<close>

definition create_token_provider_if_needed ::
  "source_model \<Rightarrow> fconnection \<Rightarrow> string dict \<Rightarrow> string option \<Rightarrow> TokenProvider option" where
  "create_token_provider_if_needed source_model source_connection decrypted_credential white_label =
     (if sm_auth_type source_model \<notin> {Some oauth2_with_refresh, Some oauth2_with_refresh_rotating}
      then None
      else Some \<lparr>tp_integration_short_name = sm_short_name source_model,
                 tp_connection_id = conn_id source_connection,
                 tp_decrypted_credential = decrypted_credential,
                 tp_white_label = white_label\<rparr>)"

text \<open>\<open>_get_source_credentials\<close>.\<close>

definition get_source_credentials ::
  "'enc factory_env \<Rightarrow> TokenProvider option \<Rightarrow> source_model \<Rightarrow> string dict \<Rightarrow>
   factory_error + source_credentials" where
  "get_source_credentials env token_provider source_model decrypted_credential =
     (case token_provider of
        Some tp \<Rightarrow>
          (case env_get_valid_token env tp of Inl e \<Rightarrow> Inl e | Inr token \<Rightarrow> Inr (AccessToken token))
      | None \<Rightarrow>
          (case sm_auth_config_class source_model of
             Some cls \<Rightarrow>
               (if cls \<noteq> []
                then (case env_auth_config_validate env cls decrypted_credential of
                        Inl e \<Rightarrow> Inl e
                      | Inr v \<Rightarrow> Inr (ValidatedAuthConfig cls v))
                else Inr (DecryptedCredential decrypted_credential))
           | None \<Rightarrow> Inr (DecryptedCredential decrypted_credential)))"

text \<open>\<open>_create_source_with_credentials\<close>.\<close>

definition create_source_with_credentials ::
  "'enc factory_env \<Rightarrow> 'enc factory_db \<Rightarrow> fconnection \<Rightarrow> source_model \<Rightarrow> string dict \<Rightarrow>
   string option \<Rightarrow> factory_error + source_instance" where
  "create_source_with_credentials env db source_connection source_model cfg white_label =
     (case conn_integration_credential_id source_connection of
        None \<Rightarrow> Inl (NotFoundException ''Source connection has no integration credential'')
      | Some credential_id \<Rightarrow>
     (case get_integration_credential db credential_id of
        Inl e \<Rightarrow> Inl e
      | Inr credential \<Rightarrow>
          (let decrypted_credential = env_decrypt env (encrypted_credentials credential);
               token_provider = create_token_provider_if_needed source_model source_connection
                                  decrypted_credential white_label
           in case get_source_credentials env token_provider source_model decrypted_credential of
                Inl e \<Rightarrow> Inl e
              | Inr source_credentials \<Rightarrow>
                  (let source = \<lparr>si_class = sm_short_name source_model,
                                  si_credentials = source_credentials,
                                  si_config = cfg, si_token_provider = None\<rparr>
                   in if token_provider \<noteq> None \<and> env_has_set_token_provider env (sm_short_name source_model)
                      then Inr (source\<lparr>si_token_provider := token_provider\<rparr>)
                      else Inr source))))"

text \<open>\<open>_create_source_instance\<close>: a direct access token bypasses the stored credential.\<close>

definition create_source_instance ::
  "'enc factory_env \<Rightarrow> 'enc factory_db \<Rightarrow> fsync \<Rightarrow> string option \<Rightarrow> string option \<Rightarrow>
   factory_error + source_instance" where
  "create_source_instance env db sync white_label access_token =
     (case get_source_config db sync of
        Inl e \<Rightarrow> Inl e
      | Inr (source_connection, cfg, source_model) \<Rightarrow>
          (let stored = create_source_with_credentials env db source_connection source_model cfg
                          white_label
           in case access_token of
                Some token \<Rightarrow>
                  (if token \<noteq> [] then Inr (create_source_with_token source_model token cfg)
                   else stored)
              | None \<Rightarrow> stored))"

text \<open>
  \<open>schemas.Destination.model_validate\<close> is pydantic's: given \<open>None\<close> it raises a
  \<open>ValidationError\<close>, given a row it builds the schema.
\<close>

definition destination_model_validate :: "destination_model option \<Rightarrow> factory_error + destination_model" where
  "destination_model_validate m =
     (case m of
        None \<Rightarrow> Inl (ValidationError ''Input should be a valid dictionary or object to extract fields from'')
      | Some row \<Rightarrow> Inr row)"

text \<open>
  \<open>_create_destination_instances\<close>. The destination model is validated before it is
  tested for \<open>None\<close>.
\<close>

definition create_destination_instances ::
  "'enc factory_db \<Rightarrow> fsync \<Rightarrow> uuid \<Rightarrow> factory_error + destination_instance list" where
  "create_destination_instances db sync collection_id =
     (case fsync_destination_connection_ids sync of
        [] \<Rightarrow> Inl (IndexError ''list index out of range'')
      | dest_connection_id # _ \<Rightarrow>
     (case fdb_connection_get db dest_connection_id of
        None \<Rightarrow> Inl (NotFoundException ''Destination connection not found'')
      | Some destination_connection \<Rightarrow>
          (let destination_model = fdb_destination_get_by_short_name db (conn_short_name destination_connection)
           in case destination_model_validate destination_model of
                Inl e \<Rightarrow> Inl e
              | Inr destination_schema \<Rightarrow>
                  (if destination_model = None
                   then Inl (NotFoundException ''Destination not found for connection'')
                   else Inr [\<lparr>di_class = dm_class_name destination_schema,
                              di_collection_id = collection_id\<rparr>]))))"

text \<open>\<open>_create_sync_context\<close>, as far as the source and the destinations.\<close>

definition create_sync_context ::
  "'enc factory_env \<Rightarrow> 'enc factory_db \<Rightarrow> fsync \<Rightarrow> uuid \<Rightarrow> string option \<Rightarrow> string option \<Rightarrow>
   factory_error + (source_instance \<times> destination_instance list)" where
  "create_sync_context env db sync collection_id white_label access_token =
     (case create_source_instance env db sync white_label access_token of
        Inl e \<Rightarrow> Inl e
      | Inr source \<Rightarrow>
          (case create_destination_instances db sync collection_id of
             Inl e \<Rightarrow> Inl e
           | Inr destinations \<Rightarrow> Inr (source, destinations)))"

text \<open>
  An example configuration: sync 1 reads connection 2 (source \<open>asana\<close>, an API key in
  credential 3) and writes to connection 4 (\<open>qdrant\<close>). In \<open>example_factory_db\<close> the
  destination model of \<open>qdrant\<close> is missing.
\<close>

definition example_sync :: fsync where
  "example_sync = \<lparr>fsync_id = 1, fsync_source_connection_id = 2, fsync_destination_connection_ids = [4]\<rparr>"

definition example_source_model :: source_model where
  "example_source_model =
     \<lparr>sm_short_name = ''asana'', sm_auth_type = Some (other_auth ''api_key''), sm_auth_config_class = None\<rparr>"

definition example_connection :: "uuid \<Rightarrow> fconnection option" where
  "example_connection i =
     (if i = 2 then Some \<lparr>conn_id = 2, conn_short_name = ''asana'', conn_integration_credential_id = Some 3\<rparr>
      else if i = 4 then Some \<lparr>conn_id = 4, conn_short_name = ''qdrant'', conn_integration_credential_id = None\<rparr>
      else None)"

definition example_factory_db :: "string dict factory_db" where
  "example_factory_db =
     \<lparr>fdb_connection_get = example_connection,
      fdb_source_connection_get_by_sync_id =
        (\<lambda>i. if i = 1 then Some \<lparr>config_fields = None\<rparr> else None),
      fdb_source_get_by_short_name = (\<lambda>n. if n = ''asana'' then Some example_source_model else None),
      fdb_integration_credential_get =
        (\<lambda>i. if i = 3 then Some \<lparr>encrypted_credentials = [(''api_key'', ''k'')]\<rparr> else None),
      fdb_destination_get_by_short_name = (\<lambda>n. None)\<rparr>"

definition example_factory_env :: "string dict factory_env" where
  "example_factory_env =
     \<lparr>env_decrypt = (\<lambda>c. c),
      env_get_valid_token = (\<lambda>tp. Inr ''token''),
      env_auth_config_validate = (\<lambda>cls c. Inr c),
      env_has_set_token_provider = (\<lambda>n. True)\<rparr>"

text \<open>The same configuration with a source whose auth type needs refresh.\<close>

definition example_oauth_source_model :: source_model where
  "example_oauth_source_model = example_source_model\<lparr>sm_auth_type := Some oauth2_with_refresh\<rparr>"

definition example_oauth_factory_db :: "string dict factory_db" where
  "example_oauth_factory_db =
     example_factory_db
       \<lparr>fdb_source_get_by_short_name :=
          (\<lambda>n. if n = ''asana'' then Some example_oauth_source_model else None)\<rparr>"

section \<open>platform/auth/services.py: refreshing an access token\<close>

text \<open>
  A stored credential is a dict whose values are strings or \<open>None\<close>. The database holds
  the connections and the encrypted integration credentials, and \<open>rdb_updates\<close> lists the
  credential updates made, in order. The environment supplies the integration settings,
  the token endpoint (the request together with the parsing of its answer into an
  \<open>OAuth2TokenResponse\<close>; \<open>Inl\<close> when either raises), encryption and decryption, and
  Base64.
\<close>

type_synonym credential_dict = "string option dict"

datatype refresh_error =
    RefreshFailed factory_error
  | TokenRequestFailed string
  | NoneHasNoAttribute string

record oauth2_token_response =
  tr_access_token :: string
  tr_refresh_token :: "string option"

record oauth2_settings = "string option integration_config" +
  oa_auth_type :: AuthType
  oa_backend_url :: string
  oa_content_type :: string
  oa_client_credential_location :: string

record white_label =
  wl_source_short_name :: string
  wl_client_id :: "string option"
  wl_client_secret :: "string option"

record 'enc refresh_db =
  rdb_connections :: "uuid \<Rightarrow> fconnection option"
  rdb_credentials :: "uuid \<Rightarrow> 'enc integration_credential option"
  rdb_updates :: "(uuid \<times> 'enc) list"

record 'enc refresh_env =
  renv_settings :: "string \<Rightarrow> oauth2_settings option"
  renv_post :: "string \<Rightarrow> credential_dict \<Rightarrow> credential_dict \<Rightarrow> string + oauth2_token_response"
  renv_decrypt :: "'enc \<Rightarrow> credential_dict"
  renv_encrypt :: "credential_dict \<Rightarrow> 'enc"
  renv_b64encode :: "string \<Rightarrow> string"

text \<open>\<open>_get_refresh_token\<close>: a missing, \<open>None\<close> or empty refresh token is an error.\<close>

definition get_refresh_token :: "credential_dict \<Rightarrow> refresh_error + string" where
  "get_refresh_token decrypted_credential =
     (case dict_get decrypted_credential ''refresh_token'' None of
        None \<Rightarrow> Inl (RefreshFailed (TokenRefreshError ''No refresh token found''))
      | Some t \<Rightarrow> if t = [] then Inl (RefreshFailed (TokenRefreshError ''No refresh token found''))
                   else Inr t)"

text \<open>\<open>_get_integration_config\<close>.\<close>

definition get_integration_config :: "'enc refresh_env \<Rightarrow> string \<Rightarrow> refresh_error + oauth2_settings" where
  "get_integration_config env integration_short_name =
     (case renv_settings env integration_short_name of
        None \<Rightarrow> Inl (RefreshFailed (NotFoundException
                       (''Configuration for '' @ integration_short_name @ '' not found'')))
      | Some integration_config \<Rightarrow> Inr integration_config)"

text \<open>How an f-string prints an optional string.\<close>

definition fmt_opt :: "string option \<Rightarrow> string" where
  "fmt_opt v = (case v of None \<Rightarrow> ''None'' | Some s \<Rightarrow> s)"

text \<open>\<open>_prepare_token_request\<close>: the headers and the payload.\<close>

definition prepare_token_request ::
  "'enc refresh_env \<Rightarrow> oauth2_settings \<Rightarrow> string \<Rightarrow> string option \<Rightarrow> string option \<Rightarrow>
   credential_dict \<times> credential_dict" where
  "prepare_token_request env integration_config refresh_tok cid csecret =
     (let headers = [(''Content-Type'', Some (oa_content_type integration_config))];
          payload = [(''grant_type'', Some ''refresh_token''), (''refresh_token'', Some refresh_tok)]
      in if oa_client_credential_location integration_config = ''header''
         then (dict_set headers ''Authorization''
                 (Some (''Basic '' @ renv_b64encode env (fmt_opt cid @ '':'' @ fmt_opt csecret))),
               payload)
         else (headers, dict_set (dict_set payload ''client_id'' cid) ''client_secret'' csecret))"

text \<open>
  \<open>_handle_token_response\<close>. For a rotating integration the connection and its credential
  are read (a missing row is \<open>None\<close>, and reading its attribute raises), the new refresh
  token replaces the stored one, and the re-encrypted credential is written back.
\<close>

definition handle_token_response ::
  "'enc refresh_env \<Rightarrow> 'enc refresh_db \<Rightarrow> oauth2_token_response \<Rightarrow> oauth2_settings \<Rightarrow> uuid \<Rightarrow>
   refresh_error + ('enc refresh_db \<times> oauth2_token_response)" where
  "handle_token_response env db response integration_config connection_ident =
     (if oa_auth_type integration_config = oauth2_with_refresh_rotating
      then (case rdb_connections db connection_ident of
              None \<Rightarrow> Inl (NoneHasNoAttribute ''integration_credential_id'')
            | Some connection \<Rightarrow>
                (case conn_integration_credential_id connection of
                   None \<Rightarrow> Inl (NoneHasNoAttribute ''encrypted_credentials'')
                 | Some credential_id \<Rightarrow>
                     (case rdb_credentials db credential_id of
                        None \<Rightarrow> Inl (NoneHasNoAttribute ''encrypted_credentials'')
                      | Some integration_credential \<Rightarrow>
                          (let current_credentials =
                                 renv_decrypt env (encrypted_credentials integration_credential);
                               current_credentials' =
                                 dict_set current_credentials ''refresh_token'' (tr_refresh_token response);
                               encrypted = renv_encrypt env current_credentials'
                           in Inr (db\<lparr>rdb_credentials :=
                                        (rdb_credentials db)
                                          (credential_id \<mapsto> \<lparr>encrypted_credentials = encrypted\<rparr>),
                                      rdb_updates := rdb_updates db @ [(credential_id, encrypted)]\<rparr>,
                                   response)))))
      else Inr (db, response))"

text \<open>\<open>refresh_access_token\<close>: every exception is logged and raised again.\<close>

definition refresh_access_token ::
  "'enc refresh_env \<Rightarrow> 'enc refresh_db \<Rightarrow> string \<Rightarrow> uuid \<Rightarrow> credential_dict \<Rightarrow> white_label option \<Rightarrow>
   refresh_error + ('enc refresh_db \<times> oauth2_token_response)" where
  "refresh_access_token env db integration_short_name connection_ident decrypted_credential wl =
     (case get_refresh_token decrypted_credential of
        Inl e \<Rightarrow> Inl e
      | Inr refresh_tok \<Rightarrow>
     (case get_integration_config env integration_short_name of
        Inl e \<Rightarrow> Inl e
      | Inr integration_config \<Rightarrow>
          (let (cid0, cs0) = get_client_credentials integration_config None (Some decrypted_credential);
               (cid, cs) =
                 (case wl of
                    None \<Rightarrow> (cid0, cs0)
                  | Some w \<Rightarrow>
                      if wl_source_short_name w = integration_short_name
                      then (wl_client_id w, wl_client_secret w) else (cid0, cs0));
               (headers, payload) = prepare_token_request env integration_config refresh_tok cid cs
           in case renv_post env (oa_backend_url integration_config) headers payload of
                Inl e \<Rightarrow> Inl (TokenRequestFailed e)
              | Inr response \<Rightarrow>
                  handle_token_response env db response integration_config connection_ident)))"

text \<open>An example: the integration \<open>dropbox\<close> rotates its refresh tokens, \<open>gmail\<close> does not.\<close>

definition example_settings :: "string \<Rightarrow> oauth2_settings option" where
  "example_settings n =
     (if n = ''dropbox''
      then Some \<lparr>client_id = Some ''cid'', client_secret = Some ''cs'',
                 oa_auth_type = oauth2_with_refresh_rotating, oa_backend_url = ''https://token'',
                 oa_content_type = ''application/x-www-form-urlencoded'',
                 oa_client_credential_location = ''body''\<rparr>
      else if n = ''gmail''
      then Some \<lparr>client_id = Some ''cid'', client_secret = Some ''cs'',
                 oa_auth_type = oauth2_with_refresh, oa_backend_url = ''https://token'',
                 oa_content_type = ''application/x-www-form-urlencoded'',
                 oa_client_credential_location = ''body''\<rparr>
      else None)"

definition example_refresh_env :: "credential_dict refresh_env" where
  "example_refresh_env =
     \<lparr>renv_settings = example_settings,
      renv_post = (\<lambda>url headers payload. Inr \<lparr>tr_access_token = ''a2'', tr_refresh_token = Some ''r2''\<rparr>),
      renv_decrypt = (\<lambda>c. c), renv_encrypt = (\<lambda>c. c), renv_b64encode = (\<lambda>s. s)\<rparr>"

definition example_refresh_connection :: "uuid \<Rightarrow> fconnection option" where
  "example_refresh_connection i =
     (if i = 2 then Some \<lparr>conn_id = 2, conn_short_name = ''dropbox'', conn_integration_credential_id = Some 3\<rparr>
      else None)"

definition example_refresh_credential :: "uuid \<Rightarrow> credential_dict integration_credential option" where
  "example_refresh_credential i =
     (if i = 3 then Some \<lparr>encrypted_credentials = [(''refresh_token'', Some ''r1'')]\<rparr> else None)"

definition example_refresh_db :: "credential_dict refresh_db" where
  "example_refresh_db =
     \<lparr>rdb_connections = example_refresh_connection, rdb_credentials = example_refresh_credential,
      rdb_updates = []\<rparr>"

section \<open>Theorems\<close>

subsection \<open>Client credentials (services.py)\<close>

lemma override_step:
  "(case d of None \<Rightarrow> (a, b)
    | Some kvs \<Rightarrow> if kvs \<noteq> [] then (dict_get kvs k1 a, dict_get kvs k2 b) else (a, b))
   = (case dict_lookup d k1 of None \<Rightarrow> a | Some v \<Rightarrow> v,
      case dict_lookup d k2 of None \<Rightarrow> b | Some v \<Rightarrow> v)"
  by (cases d) (auto simp: dict_lookup_def dict_get_def)

lemma get_client_credentials_eq:
  "get_client_credentials cfg af dc =
     (case dict_lookup af ''client_id'' of Some v \<Rightarrow> v
      | None \<Rightarrow> (case dict_lookup dc ''client_id'' of Some w \<Rightarrow> w | None \<Rightarrow> client_id cfg),
      case dict_lookup af ''client_secret'' of Some v \<Rightarrow> v
      | None \<Rightarrow> (case dict_lookup dc ''client_secret'' of Some w \<Rightarrow> w | None \<Rightarrow> client_secret cfg))"
  unfolding get_client_credentials_def Let_def override_step
  by (simp split: option.splits)

text \<open>
  Claim C10. \<open>_get_client_credentials\<close> resolves the client id and the client secret with
  \<open>auth_fields\<close> first, then \<open>decrypted_credential\<close>, then the integration config: a key
  present in \<open>auth_fields\<close> is answered from there whatever \<open>decrypted_credential\<close> holds;
  a key absent from \<open>auth_fields\<close> and present in \<open>decrypted_credential\<close> is answered from
  the latter; a key absent from both falls back to the integration config.
\<close>

theorem client_credentials_precedence:
  "(dict_lookup af ''client_id'' = Some v \<longrightarrow> fst (get_client_credentials cfg af dc) = v) \<and>
   (dict_lookup af ''client_secret'' = Some s \<longrightarrow> snd (get_client_credentials cfg af dc) = s) \<and>
   (dict_lookup af ''client_id'' = None \<and> dict_lookup dc ''client_id'' = Some w
      \<longrightarrow> fst (get_client_credentials cfg af dc) = w) \<and>
   (dict_lookup af ''client_secret'' = None \<and> dict_lookup dc ''client_secret'' = Some t
      \<longrightarrow> snd (get_client_credentials cfg af dc) = t) \<and>
   (dict_lookup af ''client_id'' = None \<and> dict_lookup dc ''client_id'' = None
      \<longrightarrow> fst (get_client_credentials cfg af dc) = client_id cfg) \<and>
   (dict_lookup af ''client_secret'' = None \<and> dict_lookup dc ''client_secret'' = None
      \<longrightarrow> snd (get_client_credentials cfg af dc) = client_secret cfg)"
  by (simp add: get_client_credentials_eq)

theorem client_credentials_precedence_witness:
  "dict_lookup (Some [(''client_id'', ''af_id'')]) ''client_id'' = Some ''af_id'' \<and>
   dict_lookup (Some [(''client_id'', ''af_id'')]) ''client_secret'' = None \<and>
   dict_lookup (Some [(''client_id'', ''dc_id''), (''client_secret'', ''dc_secret'')]) ''client_secret''
     = Some ''dc_secret'' \<and>
   get_client_credentials \<lparr>client_id = ''cfg_id'', client_secret = ''cfg_secret''\<rparr>
     (Some [(''client_id'', ''af_id'')])
     (Some [(''client_id'', ''dc_id''), (''client_secret'', ''dc_secret'')])
   = (''af_id'', ''dc_secret'')"
  using client_credentials_precedence
    [of "Some [(''client_id'', ''af_id'')]" "''af_id''"
        "\<lparr>client_id = ''cfg_id'', client_secret = ''cfg_secret''\<rparr>"
        "Some [(''client_id'', ''dc_id''), (''client_secret'', ''dc_secret'')]"
        "''zz''" "''dc_id''" "''dc_secret''"]
  by (simp add: dict_lookup_def prod_eq_iff)

subsection \<open>Workflow identifiers (temporal\_service.py)\<close>

text \<open>
  Claim C8. The workflow started for a sync job and the workflow addressed by a cancel
  request for that job's id carry the same identifier, the string \<open>sync-\<close> followed by the
  job id: the start call registers it, the cancel call targets it, a cancel request
  addresses the workflow of a job exactly when it is given that job's id, and two start
  requests for the same job compute the same identifier.
\<close>

theorem workflow_id_shared:
  "snd (run_source_connection_workflow str_of tq c job) = ''sync-'' @ str_of (job_id job) \<and>
   calls (fst (run_source_connection_workflow str_of tq c job))
     = calls c @ [StartWorkflow (''sync-'' @ str_of (job_id job)) tq] \<and>
   calls (fst (cancel_sync_job_workflow c' (str_of (job_id job))))
     = calls c' @ [CancelWorkflow (''sync-'' @ str_of (job_id job))] \<and>
   (cancel_workflow_id s = start_workflow_id str_of job \<longleftrightarrow> s = str_of (job_id job)) \<and>
   (job_id job = job_id job' \<longrightarrow> start_workflow_id str_of job = start_workflow_id str_of job')"
  by (simp add: run_source_connection_workflow_def cancel_sync_job_workflow_def
      start_workflow_id_def cancel_workflow_id_def Let_def)

theorem workflow_id_shared_witness:
  "job_id \<lparr>job_id = ''1f2e''\<rparr> = job_id \<lparr>job_id = ''1f2e''\<rparr> \<and>
   snd (run_source_connection_workflow (\<lambda>u. u) ''queue''
          \<lparr>calls = [], cancel_raises = (\<lambda>w. False)\<rparr> \<lparr>job_id = ''1f2e''\<rparr>) = ''sync-1f2e'' \<and>
   cancel_sync_job_workflow
     (fst (run_source_connection_workflow (\<lambda>u. u) ''queue''
          \<lparr>calls = [], cancel_raises = (\<lambda>w. False)\<rparr> \<lparr>job_id = ''1f2e''\<rparr>)) ''1f2e''
     = (\<lparr>calls = [StartWorkflow ''sync-1f2e'' ''queue'', CancelWorkflow ''sync-1f2e''],
         cancel_raises = (\<lambda>w. False)\<rparr>, True) \<and>
   start_workflow_id (\<lambda>u. u) \<lparr>job_id = ''1f2e''\<rparr> = cancel_workflow_id ''1f2e''"
  using workflow_id_shared
    [of "\<lambda>u. u" "''queue''" "\<lparr>calls = [], cancel_raises = (\<lambda>w. False)\<rparr>" "\<lparr>job_id = ''1f2e''\<rparr>"
        "\<lparr>calls = [], cancel_raises = (\<lambda>w. False)\<rparr>" "''1f2e''" "\<lparr>job_id = ''1f2e''\<rparr>"]
  by (simp add: run_source_connection_workflow_def cancel_sync_job_workflow_def
      start_workflow_id_def cancel_workflow_id_def Let_def)

subsection \<open>The initial DAG (dag\_service.py)\<close>

lemma entity_nodes_loop_shape:
  "entity_nodes_loop gen sid eds (k, ns, es) = (k', ns', es') \<Longrightarrow>
   \<exists>new. ns' = ns @ new \<and>
         es' = es @ map (\<lambda>n. \<lparr>from_node_id = sid, to_node_id = node_id n\<rparr>) new \<and>
         (\<forall>n \<in> set new. node_type n = ''entity'')"
proof (induction eds arbitrary: k ns es)
  case Nil
  then show ?case by simp
next
  case (Cons ed eds)
  show ?case
  proof (cases "str_contains ''Workspace'' (entity_definition_name ed)
         \<or> str_contains ''Comment'' (entity_definition_name ed)")
    case True
    with Cons.prems have "entity_nodes_loop gen sid eds (Suc k, ns, es) = (k', ns', es')"
      by (simp add: Let_def)
    from Cons.IH[OF this] show ?thesis .
  next
    case False
    let ?n = "\<lparr>node_id = gen k, node_type = ''entity'',
                      node_name = entity_definition_name ed, node_connection_id = None,
                      node_entity_definition_id = Some (entity_definition_id ed),
                      node_config = None\<rparr>"
    from False Cons.prems have "entity_nodes_loop gen sid eds
        (Suc k, ns @ [?n], es @ [\<lparr>from_node_id = sid, to_node_id = gen k\<rparr>]) = (k', ns', es')"
      by (simp add: Let_def)
    from Cons.IH[OF this] obtain new where
      n: "ns' = (ns @ [?n]) @ new"
      "es' = (es @ [\<lparr>from_node_id = sid, to_node_id = gen k\<rparr>]) @ map (\<lambda>n. \<lparr>from_node_id = sid, to_node_id = node_id n\<rparr>) new"
      "\<forall>n \<in> set new. node_type n = ''entity''" by blast
    then have "ns' = ns @ (?n # new) \<and>
         es' = es @ map (\<lambda>n. \<lparr>from_node_id = sid, to_node_id = node_id n\<rparr>) (?n # new) \<and>
         (\<forall>n \<in> set (?n # new). node_type n = ''entity'')" by simp
    then show ?thesis by blast
  qed
qed

lemma destination_node_Inr:
  "destination_node db sync did = Inr dn \<Longrightarrow> node_id dn = did \<and> node_type dn = ''destination''"
  by (auto simp: destination_node_def split: option.splits)

lemma inner_nodes_mid: "inner_nodes (a # mid @ [b]) = mid"
  by (simp add: inner_nodes_def butlast_append)

lemma create_initial_dag_form:
  assumes "create_initial_dag gen k0 db sync_id = Inr (k', dag)"
  shows "\<exists>src mid dn. nodes dag = src # mid @ [dn] \<and> node_type src = ''source'' \<and>
           node_type dn = ''destination'' \<and> (\<forall>n \<in> set mid. node_type n = ''entity'') \<and>
           (\<exists>f \<in> set mid. node_name f = ''AsanaPDF'' \<and> node_config f = Some [(''type'', ''file'')]) \<and>
           set (edges dag) =
             (\<lambda>n. \<lparr>from_node_id = node_id src, to_node_id = node_id n\<rparr>) ` set mid \<union>
             (\<lambda>n. \<lparr>from_node_id = node_id n, to_node_id = node_id dn\<rparr>) ` set mid"
proof -
  from assms obtain sync where s: "sync_get db sync_id = Some sync"
    by (auto simp: create_initial_dag_def split: option.splits)
  from assms s obtain sc where c: "connection_get db (source_connection_id sync) = Some sc"
    by (auto simp: create_initial_dag_def split: option.splits)
  from assms s c obtain source where so: "source_get_by_short_name db (short_name sc) = Some source"
    by (auto simp: create_initial_dag_def split: option.splits)
  let ?src = "\<lparr>node_id = gen k0, node_type = ''source'', node_name = source_name source,
                node_connection_id = Some (connection_id sc),
                node_entity_definition_id = None, node_config = None\<rparr>"
  obtain k1 ns1 es1 where
    l: "entity_nodes_loop gen (gen k0)
          (entity_definition_get_multi_by_ids db (output_entity_definition_ids source))
          (Suc k0, [?src], []) = (k1, ns1, es1)"
    using prod_cases3 by blast
  from entity_nodes_loop_shape[OF l] obtain new where
    new: "ns1 = [?src] @ new"
         "es1 = [] @ map (\<lambda>n. \<lparr>from_node_id = gen k0, to_node_id = node_id n\<rparr>) new"
         "\<forall>n \<in> set new. node_type n = ''entity''" by blast
  let ?file = "\<lparr>node_id = gen k1, node_type = ''entity'', node_name = ''AsanaPDF'',
                 node_connection_id = None, node_entity_definition_id = None,
                 node_config = Some [(''type'', ''file'')]\<rparr>"
  from assms s c so l obtain dn where
    d: "destination_node db sync (gen (Suc k1)) = Inr dn"
    by (auto simp: create_initial_dag_def Let_def split: sum.splits)
  from destination_node_Inr[OF d] have dn: "node_id dn = gen (Suc k1)" "node_type dn = ''destination''"
    by simp_all
  let ?mid = "new @ [?file]"
  from assms s c so l d have dag:
    "nodes dag = ns1 @ [?file] @ [dn]"
    "edges dag = (es1 @ [\<lparr>from_node_id = gen k0, to_node_id = gen k1\<rparr>]) @
        map (\<lambda>node. \<lparr>from_node_id = node_id node, to_node_id = gen (Suc k1)\<rparr>)
          (inner_nodes ((ns1 @ [?file]) @ [dn]))"
    by (auto simp: create_initial_dag_def Let_def)
  have n: "nodes dag = ?src # ?mid @ [dn]" using dag(1) new(1) by simp
  have "inner_nodes ((ns1 @ [?file]) @ [dn]) = ?mid"
    using new(1) inner_nodes_mid[of ?src ?mid dn] by simp
  with dag(2) new(2) have e: "edges dag =
      map (\<lambda>n. \<lparr>from_node_id = gen k0, to_node_id = node_id n\<rparr>) ?mid @
      map (\<lambda>n. \<lparr>from_node_id = node_id n, to_node_id = gen (Suc k1)\<rparr>) ?mid"
    by simp
  have "set (edges dag) =
             (\<lambda>n. \<lparr>from_node_id = node_id ?src, to_node_id = node_id n\<rparr>) ` set ?mid \<union>
             (\<lambda>n. \<lparr>from_node_id = node_id n, to_node_id = node_id dn\<rparr>) ` set ?mid"
    unfolding e dn(1) by (simp only: set_append set_map DagNodeCreate.simps)
  moreover have "\<forall>n \<in> set ?mid. node_type n = ''entity''" using new(3) by simp
  moreover have "\<exists>f \<in> set ?mid. node_name f = ''AsanaPDF'' \<and> node_config f = Some [(''type'', ''file'')]"
    by simp
  moreover have "node_type ?src = ''source''" by simp
  ultimately show ?thesis using n dn(2) by blast
qed

text \<open>
  Claim C7. In the DAG that \<open>create_initial_dag\<close> builds, the first node is the source
  node and the last the destination node; the synthetic file entity node \<open>AsanaPDF\<close> is
  among the nodes; and every entity node has an edge from the source node and an edge to
  the destination node, so it is reached from a source, reaches a destination, and is
  not dead.
\<close>

theorem initial_dag_entity_nodes_connected:
  assumes "create_initial_dag gen k0 db sync_id = Inr (k', dag)"
  shows "nodes dag \<noteq> [] \<and> node_type (hd (nodes dag)) = ''source'' \<and>
         node_type (last (nodes dag)) = ''destination'' \<and>
         (\<exists>f \<in> set (nodes dag). node_type f = ''entity'' \<and> node_name f = ''AsanaPDF'') \<and>
         (\<forall>n \<in> set (nodes dag). node_type n = ''entity'' \<longrightarrow>
            \<lparr>from_node_id = node_id (hd (nodes dag)), to_node_id = node_id n\<rparr> \<in> set (edges dag) \<and>
            \<lparr>from_node_id = node_id n, to_node_id = node_id (last (nodes dag))\<rparr> \<in> set (edges dag) \<and>
            \<not> dead_node dag n)"
proof -
  from create_initial_dag_form[OF assms] obtain src mid dn where
    f: "nodes dag = src # mid @ [dn]" "node_type src = ''source''" "node_type dn = ''destination''"
       "\<forall>n \<in> set mid. node_type n = ''entity''"
       "\<exists>f \<in> set mid. node_name f = ''AsanaPDF'' \<and> node_config f = Some [(''type'', ''file'')]"
       "set (edges dag) =
             (\<lambda>n. \<lparr>from_node_id = node_id src, to_node_id = node_id n\<rparr>) ` set mid \<union>
             (\<lambda>n. \<lparr>from_node_id = node_id n, to_node_id = node_id dn\<rparr>) ` set mid"
    by blast
  have hd: "hd (nodes dag) = src" and la: "last (nodes dag) = dn" using f(1) by simp_all
  have ent: "n \<in> set mid" if "n \<in> set (nodes dag)" "node_type n = ''entity''" for n
    using that f(1,2,3) by auto
  have conn: "\<lparr>from_node_id = node_id src, to_node_id = node_id n\<rparr> \<in> set (edges dag) \<and>
            \<lparr>from_node_id = node_id n, to_node_id = node_id dn\<rparr> \<in> set (edges dag) \<and>
            \<not> dead_node dag n" if "n \<in> set mid" for n
  proof -
    have 1: "\<lparr>from_node_id = node_id src, to_node_id = node_id n\<rparr> \<in> set (edges dag)"
      and 2: "\<lparr>from_node_id = node_id n, to_node_id = node_id dn\<rparr> \<in> set (edges dag)"
      using that f(6) by auto
    have "src \<in> set (nodes dag)" "dn \<in> set (nodes dag)" using f(1) by simp_all
    with dag_path_edge[OF 1] dag_path_edge[OF 2] f(2,3) have "\<not> dead_node dag n"
      unfolding dead_node_def by blast
    with 1 2 show ?thesis by simp
  qed
  have "\<exists>f \<in> set (nodes dag). node_type f = ''entity'' \<and> node_name f = ''AsanaPDF''"
    using f(1,4,5) by auto
  then show ?thesis using f(1,2,3) hd la ent conn by auto
qed

theorem initial_dag_entity_nodes_connected_witness:
  "create_initial_dag (\<lambda>k. 100 + k) 0 example_dag_db 1 = Inr (5, example_dag) \<and>
   \<lparr>from_node_id = 100, to_node_id = 101\<rparr> \<in> set (edges example_dag) \<and>
   \<lparr>from_node_id = 101, to_node_id = 104\<rparr> \<in> set (edges example_dag) \<and>
   \<not> dead_node example_dag
       \<lparr>node_id = 101, node_type = ''entity'', node_name = ''AsanaTask'',
        node_connection_id = None, node_entity_definition_id = Some 7, node_config = None\<rparr> \<and>
   \<not> dead_node example_dag
       \<lparr>node_id = 103, node_type = ''entity'', node_name = ''AsanaPDF'',
        node_connection_id = None, node_entity_definition_id = None,
        node_config = Some [(''type'', ''file'')]\<rparr>"
proof -
  have h: "create_initial_dag (\<lambda>k. 100 + k) 0 example_dag_db 1 = Inr (5, example_dag)"
    by (simp add: create_initial_dag_def example_dag_db_def example_dag_def destination_node_def
        inner_nodes_def Let_def)
  from initial_dag_entity_nodes_connected[OF h] h show ?thesis
    by (simp add: example_dag_def)
qed

subsection \<open>The supervising loop (activities.py)\<close>

lemma supervise_timeouts:
  "supervise (replicate n Timeout @ evs) tr
   = supervise evs (tr @ concat (replicate n [WaitFor 1, Heartbeat ''Sync in progress'']))"
  by (induction n arbitrary: tr) simp_all

lemma supervise_task_timeouts:
  "supervise (replicate n TaskTimedOut @ evs) tr
   = supervise evs (tr @ concat (replicate n [WaitFor 1, Heartbeat ''Sync in progress'']))"
  by (induction n arbitrary: tr) simp_all

lemma supervise_all_timeouts:
  "\<forall>e \<in> set evs. e = Timeout \<or> e = TaskTimedOut \<Longrightarrow> supervise evs tr = None"
  by (induction evs arbitrary: tr) auto

lemma supervise_leaves:
  "e \<noteq> Timeout \<Longrightarrow> e \<noteq> TaskTimedOut \<Longrightarrow> \<exists>x. supervise (e # rest) tr = Some (x, tr @ [WaitFor 1])"
  by (cases e) simp_all

lemma on_cancelled_trace:
  "\<exists>post. trace (snd (on_cancelled env st j)) = trace st @ post \<and> (\<forall>x \<in> set post. \<not> is_heartbeat x)"
  by (auto simp: on_cancelled_def update_status_def Let_def is_heartbeat_def split: await_outcome.splits)

lemma run_sync_activity_after_loop:
  assumes "supervise (wait_events env) [CreateSyncTask] = Some (x, tr)"
  shows "\<exists>res st post. run_sync_activity env jobs0 j = Some (res, st) \<and>
           trace st = tr @ post \<and> (\<forall>x \<in> set post. \<not> is_heartbeat x)"
proof (cases x)
  case ExitCancelled
  obtain res st where r: "on_cancelled env \<lparr>jobs = jobs0, trace = tr\<rparr> j = (res, st)"
    by (cases "on_cancelled env \<lparr>jobs = jobs0, trace = tr\<rparr> j")
  with on_cancelled_trace[of env "\<lparr>jobs = jobs0, trace = tr\<rparr>" j]
  obtain post where "trace st = tr @ post" "\<forall>x \<in> set post. \<not> is_heartbeat x" by auto
  with assms ExitCancelled r show ?thesis by (simp add: run_sync_activity_def)
next
  case ExitDone
  with assms show ?thesis by (simp add: run_sync_activity_def)
next
  case (ExitRaised e)
  with assms show ?thesis by (simp add: run_sync_activity_def is_heartbeat_def)
qed

text \<open>
  Apart from a sync task that ends with a \<open>TimeoutError\<close>, the loop does what is expected
  of it: if the waits end \<open>n\<close> times with the timeout and then with the normal end of the
  task, another exception of it, or the cancellation of the activity, the activity ends,
  and its calls are the start of the task, \<open>n\<close> times a one-second wait followed by one
  heartbeat, the last one-second wait, and then calls none of which is a heartbeat.
\<close>

lemma supervising_loop_one_heartbeat_per_timeout:
  "(wait_events env = replicate n Timeout @ e # rest \<and> e \<noteq> Timeout \<and> e \<noteq> TaskTimedOut \<longrightarrow>
      (\<exists>res st post. run_sync_activity env jobs0 j = Some (res, st) \<and>
         trace st = CreateSyncTask # concat (replicate n [WaitFor 1, Heartbeat ''Sync in progress''])
                      @ [WaitFor 1] @ post \<and>
         (\<forall>x \<in> set post. \<not> is_heartbeat x) \<and>
         length (filter is_heartbeat (trace st)) = n)) \<and>
   ((\<forall>e \<in> set (wait_events env). e = Timeout) \<longrightarrow> run_sync_activity env jobs0 j = None)"
proof (intro conjI impI)
  assume a: "wait_events env = replicate n Timeout @ e # rest \<and> e \<noteq> Timeout \<and> e \<noteq> TaskTimedOut"
  let ?beats = "concat (replicate n [WaitFor 1, Heartbeat ''Sync in progress''])"
  from a supervise_leaves[of e rest "[CreateSyncTask] @ ?beats"] obtain x where
    "supervise (wait_events env) [CreateSyncTask] = Some (x, ([CreateSyncTask] @ ?beats) @ [WaitFor 1])"
    by (auto simp: supervise_timeouts)
  from run_sync_activity_after_loop[OF this, of jobs0 j] obtain res st post where
    r: "run_sync_activity env jobs0 j = Some (res, st)"
       "trace st = (([CreateSyncTask] @ ?beats) @ [WaitFor 1]) @ post"
       "\<forall>x \<in> set post. \<not> is_heartbeat x" by blast
  have "filter is_heartbeat post = []" using r(3) by (simp add: filter_empty_conv)
  moreover have "length (filter is_heartbeat ?beats) = n"
    by (induction n) (simp_all add: is_heartbeat_def)
  ultimately have "length (filter is_heartbeat (trace st)) = n"
    using r(2) by (simp add: is_heartbeat_def)
  with r show "\<exists>res st post. run_sync_activity env jobs0 j = Some (res, st) \<and>
         trace st = CreateSyncTask # ?beats @ [WaitFor 1] @ post \<and>
         (\<forall>x \<in> set post. \<not> is_heartbeat x) \<and>
         length (filter is_heartbeat (trace st)) = n" by auto
next
  assume "\<forall>e \<in> set (wait_events env). e = Timeout"
  then show "run_sync_activity env jobs0 j = None"
    by (simp add: run_sync_activity_def supervise_all_timeouts)
qed

text \<open>
  Claim C3 says that the supervising loop ends exactly when the sync task completes or the
  activity is cancelled, and that no heartbeat follows either event. The code misses one
  case: a sync task that has ended with an \<open>asyncio.TimeoutError\<close>. Every wait on it ends
  at once with that error, the loop takes it for the timeout of the wait, sends a
  heartbeat and waits again: however many rounds are run the loop has not ended, each
  round after the task's end sends one more heartbeat, and only a cancellation gets the
  activity out.
\<close>

theorem task_timeout_error_keeps_loop_heartbeating:
  "run_sync_activity
     \<lparr>wait_events = replicate n TaskTimedOut, await_after_cancel = a,
      update_status_raises = u, now = t\<rparr> jobs0 j = None \<and>
   supervise (replicate n TaskTimedOut @ evs) tr
     = supervise evs (tr @ concat (replicate n [WaitFor 1, Heartbeat ''Sync in progress''])) \<and>
   run_sync_activity
     \<lparr>wait_events = [TaskTimedOut, TaskTimedOut, Cancelled],
      await_after_cancel = AwaitRaised ''TimeoutError'', update_status_raises = False, now = 9\<rparr>
     all_in_progress 7
   = Some (Raised (Exception ''TimeoutError''),
       \<lparr>jobs = all_in_progress,
        trace = [CreateSyncTask, WaitFor 1, Heartbeat ''Sync in progress'',
                 WaitFor 1, Heartbeat ''Sync in progress'', WaitFor 1,
                 CancelSyncTask, AwaitSyncTask]\<rparr>)"
proof -
  have "supervise (replicate n TaskTimedOut) [CreateSyncTask] = None"
    by (rule supervise_all_timeouts) simp
  then have "run_sync_activity
     \<lparr>wait_events = replicate n TaskTimedOut, await_after_cancel = a,
      update_status_raises = u, now = t\<rparr> jobs0 j = None"
    by (simp add: run_sync_activity_def)
  moreover have "run_sync_activity
     \<lparr>wait_events = [TaskTimedOut, TaskTimedOut, Cancelled],
      await_after_cancel = AwaitRaised ''TimeoutError'', update_status_raises = False, now = 9\<rparr>
     all_in_progress 7
   = Some (Raised (Exception ''TimeoutError''),
       \<lparr>jobs = all_in_progress,
        trace = [CreateSyncTask, WaitFor 1, Heartbeat ''Sync in progress'',
                 WaitFor 1, Heartbeat ''Sync in progress'', WaitFor 1,
                 CancelSyncTask, AwaitSyncTask]\<rparr>)"
    by (simp add: run_sync_activity_def on_cancelled_def)
  ultimately show ?thesis by (simp add: supervise_task_timeouts)
qed

subsection \<open>Cancellation and the job status (activities.py)\<close>

text \<open>
  Claim C1, as stated, fails: a cancelled activity can leave the job \<open>IN_PROGRESS\<close>.
  In the first run the status update raises, which the handler logs and swallows; in the
  second the cancelled sync task ends with an exception of its own, which leaves the
  handler before the update is tried.
\<close>

theorem cancelled_job_left_in_progress_counterexample:
  "run_sync_activity
     \<lparr>wait_events = [Timeout, Cancelled], await_after_cancel = AwaitCancelled,
      update_status_raises = True, now = 9\<rparr> all_in_progress 7
   = Some (Raised CancelledError,
       \<lparr>jobs = all_in_progress,
        trace = [CreateSyncTask, WaitFor 1, Heartbeat ''Sync in progress'', WaitFor 1,
                 CancelSyncTask, AwaitSyncTask,
                 UpdateStatus 7 CANCELLED (Some ''Workflow was cancelled'') (Some 9),
                 LogError ''Failed to update job to CANCELLED'']\<rparr>) \<and>
   run_sync_activity
     \<lparr>wait_events = [Cancelled], await_after_cancel = AwaitRaised ''teardown failed'',
      update_status_raises = False, now = 9\<rparr> all_in_progress 7
   = Some (Raised (Exception ''teardown failed''),
       \<lparr>jobs = all_in_progress,
        trace = [CreateSyncTask, WaitFor 1, CancelSyncTask, AwaitSyncTask]\<rparr>) \<and>
   status (all_in_progress 7) = IN_PROGRESS"
  by (simp add: run_sync_activity_def on_cancelled_def update_status_def all_in_progress_def Let_def)

text \<open>
  Claim C1, amended. When the activity is cancelled and the cancelled sync task ends by
  its cancellation or normally, the handler cancels and awaits the task, then calls
  \<open>update_status\<close> with \<open>CANCELLED\<close> and the reason "Workflow was cancelled", then raises
  the cancellation again. If that update succeeds the job is \<open>CANCELLED\<close>; if it raises,
  the failure is logged and the store is left as it was. The pre-start path
  \<open>mark_sync_job_cancelled_activity\<close>, given a well-formed job id, makes the same single
  \<open>update_status\<close> call and never starts the sync task; the job is \<open>CANCELLED\<close> when the
  update succeeds.
\<close>

theorem cancellation_marks_job_cancelled:
  "(supervise (wait_events env) [CreateSyncTask] = Some (ExitCancelled, tr) \<and>
    (\<forall>e. await_after_cancel env \<noteq> AwaitRaised e) \<longrightarrow>
      (\<exists>st. run_sync_activity env jobs0 j = Some (Raised CancelledError, st) \<and>
         (if update_status_raises env
          then jobs st = jobs0 \<and>
               trace st = tr @ [CancelSyncTask, AwaitSyncTask,
                                UpdateStatus j CANCELLED (Some ''Workflow was cancelled'') (Some (now env)),
                                LogError ''Failed to update job to CANCELLED'']
          else jobs st j = \<lparr>status = CANCELLED, error = Some ''Workflow was cancelled'',
                             failed_at = Some (now env)\<rparr> \<and>
               trace st = tr @ [CancelSyncTask, AwaitSyncTask,
                                UpdateStatus j CANCELLED (Some ''Workflow was cancelled'') (Some (now env))]))) \<and>
   (parse_uuid sid = Some j \<and> \<not> raises \<longrightarrow>
      (\<exists>st' fa. mark_sync_job_cancelled_activity parse_uuid fromiso raises st0 sid reason when_iso
                  = (Returned, st') \<and>
         jobs st' j = \<lparr>status = CANCELLED, error = reason, failed_at = fa\<rparr> \<and>
         trace st' = trace st0 @ [UpdateStatus j CANCELLED reason fa]))"
proof (intro conjI impI)
  assume a: "supervise (wait_events env) [CreateSyncTask] = Some (ExitCancelled, tr) \<and>
    (\<forall>e. await_after_cancel env \<noteq> AwaitRaised e)"
  then have r: "run_sync_activity env jobs0 j = Some (on_cancelled env \<lparr>jobs = jobs0, trace = tr\<rparr> j)"
    by (simp add: run_sync_activity_def)
  from a show "\<exists>st. run_sync_activity env jobs0 j = Some (Raised CancelledError, st) \<and>
         (if update_status_raises env
          then jobs st = jobs0 \<and>
               trace st = tr @ [CancelSyncTask, AwaitSyncTask,
                                UpdateStatus j CANCELLED (Some ''Workflow was cancelled'') (Some (now env)),
                                LogError ''Failed to update job to CANCELLED'']
          else jobs st j = \<lparr>status = CANCELLED, error = Some ''Workflow was cancelled'',
                             failed_at = Some (now env)\<rparr> \<and>
               trace st = tr @ [CancelSyncTask, AwaitSyncTask,
                                UpdateStatus j CANCELLED (Some ''Workflow was cancelled'') (Some (now env))])"
    unfolding r
    by (cases "await_after_cancel env") (simp_all add: on_cancelled_def update_status_def Let_def)
next
  assume "parse_uuid sid = Some j \<and> \<not> raises"
  then show "\<exists>st' fa. mark_sync_job_cancelled_activity parse_uuid fromiso raises st0 sid reason when_iso
                  = (Returned, st') \<and>
         jobs st' j = \<lparr>status = CANCELLED, error = reason, failed_at = fa\<rparr> \<and>
         trace st' = trace st0 @ [UpdateStatus j CANCELLED reason fa]"
    by (simp add: mark_sync_job_cancelled_activity_def update_status_def Let_def)
qed

theorem cancellation_marks_job_cancelled_witness:
  "supervise [Cancelled] [CreateSyncTask] = Some (ExitCancelled, [CreateSyncTask, WaitFor 1]) \<and>
   map_option (\<lambda>(res, st). (res, jobs st 7, trace st))
     (run_sync_activity
        \<lparr>wait_events = [Cancelled], await_after_cancel = AwaitCancelled,
         update_status_raises = False, now = 9\<rparr> all_in_progress 7)
   = Some (Raised CancelledError,
       \<lparr>status = CANCELLED, error = Some ''Workflow was cancelled'', failed_at = Some 9\<rparr>,
       [CreateSyncTask, WaitFor 1, CancelSyncTask, AwaitSyncTask,
        UpdateStatus 7 CANCELLED (Some ''Workflow was cancelled'') (Some 9)]) \<and>
   (\<lambda>(res, st). (res, jobs st 7, trace st))
     (mark_sync_job_cancelled_activity (\<lambda>s. if s = ''7'' then Some 7 else None) (\<lambda>w. None) False
        \<lparr>jobs = all_in_progress, trace = []\<rparr> ''7'' (Some ''user request'') None)
   = (Returned, \<lparr>status = CANCELLED, error = Some ''user request'', failed_at = None\<rparr>,
      [UpdateStatus 7 CANCELLED (Some ''user request'') None])"
  using cancellation_marks_job_cancelled
    [of "\<lparr>wait_events = [Cancelled], await_after_cancel = AwaitCancelled,
         update_status_raises = False, now = 9\<rparr>" "[CreateSyncTask, WaitFor 1]"
        all_in_progress 7 "\<lambda>s. if s = ''7'' then Some 7 else None" "''7''" False "\<lambda>w. None"
        "\<lparr>jobs = all_in_progress, trace = []\<rparr>" "Some ''user request''" None]
  by (simp add: run_sync_activity_def on_cancelled_def update_status_def
      mark_sync_job_cancelled_activity_def all_in_progress_def Let_def)

subsection \<open>Creating a sync job (activities.py)\<close>

lemma wait_rounds_Suc: "wait_rounds t (Suc n) = [WaitHeartbeat t, Sleep 30] @ wait_rounds (t + 30) n"
proof -
  have "[0..<Suc n] = 0 # map Suc [0..<n]" by (simp add: upt_conv_Cons map_Suc_upt del: upt_Suc)
  then show ?thesis by (simp add: wait_rounds_def comp_def add.assoc del: upt_Suc)
qed

lemma wait_breaks:
  "\<lbrakk>t + 30 * m < max_wait_time; running (db_at (t + 30 * Suc m)) sid = [];
    \<forall>i < m. running (db_at (t + 30 * Suc i)) sid \<noteq> []\<rbrakk>
   \<Longrightarrow> wait_for_running_jobs db_at sid t tr = (Inr (t + 30 * Suc m), tr @ wait_rounds t (Suc m))"
proof (induction m arbitrary: t tr)
  case 0
  then show ?case
    by (subst wait_for_running_jobs.simps)
       (simp add: running_def wait_interval_def Let_def wait_rounds_def)
next
  case (Suc m)
  have lt: "t < max_wait_time" using Suc.prems(1) by simp
  have busy: "running (db_at (t + 30)) sid \<noteq> []" using Suc.prems(3)[rule_format, of 0] by simp
  have ih: "wait_for_running_jobs db_at sid (t + 30) (tr @ [WaitHeartbeat t, Sleep 30])
        = (Inr ((t + 30) + 30 * Suc m), (tr @ [WaitHeartbeat t, Sleep 30]) @ wait_rounds (t + 30) (Suc m))"
  proof (rule Suc.IH)
    show "t + 30 + 30 * m < max_wait_time" using Suc.prems(1) by simp
    show "running (db_at (t + 30 + 30 * Suc m)) sid = []" using Suc.prems(2) by (simp add: add.assoc)
    show "\<forall>i<m. running (db_at (t + 30 + 30 * Suc i)) sid \<noteq> []"
    proof (intro allI impI)
      fix i assume "i < m"
      then have "running (db_at (t + 30 * Suc (Suc i))) sid \<noteq> []"
        using Suc.prems(3)[rule_format, of "Suc i"] by simp
      then show "running (db_at (t + 30 + 30 * Suc i)) sid \<noteq> []" by (simp add: add.assoc)
    qed
  qed
  show ?case
    using lt busy ih
    by (subst wait_for_running_jobs.simps)
       (simp add: running_def wait_interval_def Let_def wait_rounds_Suc[of t "Suc m"] add.assoc)
qed

lemma wait_times_out:
  "\<lbrakk>t + 30 * n = max_wait_time; \<forall>i < n. running (db_at (t + 30 * Suc i)) sid \<noteq> []\<rbrakk>
   \<Longrightarrow> wait_for_running_jobs db_at sid t tr = (Inl (WaitTimeout max_wait_time), tr @ wait_rounds t n)"
proof (induction n arbitrary: t tr)
  case 0
  then show ?case
    by (subst wait_for_running_jobs.simps) (simp add: wait_rounds_def)
next
  case (Suc n)
  have lt: "t < max_wait_time" using Suc.prems(1) by simp
  have busy: "running (db_at (t + 30)) sid \<noteq> []" using Suc.prems(2)[rule_format, of 0] by simp
  have ih: "wait_for_running_jobs db_at sid (t + 30) (tr @ [WaitHeartbeat t, Sleep 30])
        = (Inl (WaitTimeout max_wait_time), (tr @ [WaitHeartbeat t, Sleep 30]) @ wait_rounds (t + 30) n)"
  proof (rule Suc.IH)
    show "t + 30 + 30 * n = max_wait_time" using Suc.prems(1) by simp
    show "\<forall>i<n. running (db_at (t + 30 + 30 * Suc i)) sid \<noteq> []"
    proof (intro allI impI)
      fix i assume "i < n"
      then have "running (db_at (t + 30 * Suc (Suc i))) sid \<noteq> []"
        using Suc.prems(2)[rule_format, of "Suc i"] by simp
      then show "running (db_at (t + 30 + 30 * Suc i)) sid \<noteq> []" by (simp add: add.assoc)
    qed
  qed
  show ?case
    using lt busy ih
    by (subst wait_for_running_jobs.simps)
       (simp add: running_def wait_interval_def Let_def wait_rounds_Suc[of t n])
qed

lemma wait_ends_idle:
  "wait_for_running_jobs db_at sid t tr = (Inr waited, tr') \<Longrightarrow> running (db_at waited) sid = []"
proof (induction db_at sid t tr rule: wait_for_running_jobs.induct)
  case (1 db_at sid t tr)
  show ?case
  proof (cases "t < max_wait_time")
    case False
    with "1.prems" show ?thesis by (subst (asm) wait_for_running_jobs.simps) simp
  next
    case True
    show ?thesis
    proof (cases "running (db_at (t + wait_interval)) sid = []")
      case idle: True
      with True "1.prems" show ?thesis
        by (subst (asm) wait_for_running_jobs.simps) (auto simp: running_def Let_def)
    next
      case busy: False
      with True "1.prems" have
        "wait_for_running_jobs db_at sid (t + wait_interval) (tr @ [WaitHeartbeat t, Sleep wait_interval])
         = (Inr waited, tr')"
        by (subst (asm) wait_for_running_jobs.simps) (simp add: running_def Let_def)
      with "1.IH"[OF True refl refl refl] busy show ?thesis by (simp add: running_def)
    qed
  qed
qed

text \<open>
  Claim C4. Suppose a job of the sync is pending or in progress when the activity starts.
  Without \<open>force_full_sync\<close> the activity raises and creates nothing. With it, the activity
  sends a heartbeat and sleeps 30 seconds, round after round, and queries again after each
  sleep: on the first query that finds no such job it creates the new job, in the table
  as that query saw it; if all 120 queries up to 3600 seconds still find one, it raises
  after 120 rounds and creates nothing. Whenever a job is created, the query before the
  creation found no pending or running job of the sync.
\<close>

theorem create_sync_job_waits_for_running_jobs:
  "(running (db_at 0) sid \<noteq> [] \<and> \<not> force \<longrightarrow>
      create_sync_job_activity db_at nid sid force = (Inl AlreadyRunning, [])) \<and>
   (running (db_at 0) sid \<noteq> [] \<and> force \<and> 30 * Suc m \<le> max_wait_time \<and>
    running (db_at (30 * Suc m)) sid = [] \<and> (\<forall>i < m. running (db_at (30 * Suc i)) sid \<noteq> []) \<longrightarrow>
      create_sync_job_activity db_at nid sid force
        = (Inr (sync_job_create (db_at (30 * Suc m)) nid sid), wait_rounds 0 (Suc m))) \<and>
   (running (db_at 0) sid \<noteq> [] \<and> force \<and> (\<forall>i < 120. running (db_at (30 * Suc i)) sid \<noteq> []) \<longrightarrow>
      create_sync_job_activity db_at nid sid force = (Inl (WaitTimeout 3600), wait_rounds 0 120)) \<and>
   (fst (create_sync_job_activity db_at nid sid force) = Inr (jb, db') \<longrightarrow>
      (\<exists>t. running (db_at t) sid = [] \<and> (jb, db') = sync_job_create (db_at t) nid sid))"
proof (intro conjI impI)
  assume "running (db_at 0) sid \<noteq> [] \<and> \<not> force"
  then show "create_sync_job_activity db_at nid sid force = (Inl AlreadyRunning, [])"
    by (simp add: create_sync_job_activity_def running_def)
next
  assume a: "running (db_at 0) sid \<noteq> [] \<and> force \<and> 30 * Suc m \<le> max_wait_time \<and>
    running (db_at (30 * Suc m)) sid = [] \<and> (\<forall>i < m. running (db_at (30 * Suc i)) sid \<noteq> [])"
  then have "wait_for_running_jobs db_at sid 0 [] = (Inr (0 + 30 * Suc m), [] @ wait_rounds 0 (Suc m))"
    by (intro wait_breaks) simp_all
  with a show "create_sync_job_activity db_at nid sid force
        = (Inr (sync_job_create (db_at (30 * Suc m)) nid sid), wait_rounds 0 (Suc m))"
    by (simp add: create_sync_job_activity_def running_def)
next
  assume a: "running (db_at 0) sid \<noteq> [] \<and> force \<and> (\<forall>i < 120. running (db_at (30 * Suc i)) sid \<noteq> [])"
  then have "wait_for_running_jobs db_at sid 0 []
        = (Inl (WaitTimeout max_wait_time), [] @ wait_rounds 0 120)"
    by (intro wait_times_out) (simp_all add: max_wait_time_def)
  with a show "create_sync_job_activity db_at nid sid force = (Inl (WaitTimeout 3600), wait_rounds 0 120)"
    by (simp add: create_sync_job_activity_def running_def max_wait_time_def)
next
  assume r: "fst (create_sync_job_activity db_at nid sid force) = Inr (jb, db')"
  show "\<exists>t. running (db_at t) sid = [] \<and> (jb, db') = sync_job_create (db_at t) nid sid"
  proof (cases "running (db_at 0) sid = []")
    case True
    with r have "(jb, db') = sync_job_create (db_at 0) nid sid"
      by (simp add: create_sync_job_activity_def running_def)
    with True show ?thesis by blast
  next
    case False
    obtain res tr where w: "wait_for_running_jobs db_at sid 0 [] = (res, tr)"
      by (cases "wait_for_running_jobs db_at sid 0 []")
    with False r obtain waited where
      res: "res = Inr waited" and c: "(jb, db') = sync_job_create (db_at waited) nid sid"
      by (cases res; cases force) (auto simp: create_sync_job_activity_def running_def)
    from w res have "running (db_at waited) sid = []" using wait_ends_idle by blast
    with c show ?thesis by blast
  qed
qed

theorem create_sync_job_waits_for_running_jobs_witness:
  "running (example_db_at 0) 1 \<noteq> [] \<and>
   create_sync_job_activity example_db_at 11 1 False = (Inl AlreadyRunning, []) \<and>
   create_sync_job_activity example_db_at 11 1 True
     = (Inr (\<lparr>sj_id = 11, sj_sync_id = 1, sj_status = PENDING\<rparr>,
             [\<lparr>sj_id = 10, sj_sync_id = 1, sj_status = COMPLETED\<rparr>,
              \<lparr>sj_id = 11, sj_sync_id = 1, sj_status = PENDING\<rparr>]),
        [WaitHeartbeat 0, Sleep 30, WaitHeartbeat 30, Sleep 30]) \<and>
   fst (create_sync_job_activity stuck_db_at 11 1 True) = Inl (WaitTimeout 3600) \<and>
   length (snd (create_sync_job_activity stuck_db_at 11 1 True)) = 240"
proof -
  have s: "running (stuck_db_at t) 1 \<noteq> []" for t
    by (simp add: running_def get_all_by_sync_id_def stuck_db_at_def)
  have l: "length (wait_rounds t n) = 2 * n" for t n
    by (simp add: wait_rounds_def length_concat comp_def sum_list_triv)
  have w2: "wait_rounds 0 (Suc (Suc 0)) = [WaitHeartbeat 0, Sleep 30, WaitHeartbeat 30, Sleep 30]"
    by (simp add: wait_rounds_def)
  have r0: "running (example_db_at 0) 1 \<noteq> []"
    by (simp add: running_def get_all_by_sync_id_def example_db_at_def)
  have h1: "running (example_db_at 0) 1 \<noteq> [] \<and> \<not> False" using r0 by simp
  have h2: "running (example_db_at 0) 1 \<noteq> [] \<and> True \<and> 30 * Suc (Suc 0) \<le> max_wait_time \<and>
    running (example_db_at (30 * Suc (Suc 0))) 1 = [] \<and>
    (\<forall>i < Suc 0. running (example_db_at (30 * Suc i)) 1 \<noteq> [])"
    using r0 by (simp add: max_wait_time_def running_def get_all_by_sync_id_def example_db_at_def)
  have h3: "running (stuck_db_at 0) 1 \<noteq> [] \<and> True \<and>
    (\<forall>i < 120. running (stuck_db_at (30 * Suc i)) 1 \<noteq> [])"
    using s by blast
  note t1 = create_sync_job_waits_for_running_jobs[where db_at = example_db_at and sid = 1 and force = False and m = "Suc 0" and nid = 11, THEN conjunct1, rule_format, OF h1]
  note t2 = create_sync_job_waits_for_running_jobs[where db_at = example_db_at and sid = 1 and force = True and m = "Suc 0" and nid = 11,
      THEN conjunct2, THEN conjunct1, rule_format, OF h2]
  note t3 = create_sync_job_waits_for_running_jobs[where db_at = stuck_db_at and sid = 1 and force = True and m = "Suc 0" and nid = 11,
      THEN conjunct2, THEN conjunct2, THEN conjunct1, rule_format, OF h3]
  have c2: "sync_job_create (example_db_at (30 * Suc (Suc 0))) 11 1
     = (\<lparr>sj_id = 11, sj_sync_id = 1, sj_status = PENDING\<rparr>,
             [\<lparr>sj_id = 10, sj_sync_id = 1, sj_status = COMPLETED\<rparr>,
              \<lparr>sj_id = 11, sj_sync_id = 1, sj_status = PENDING\<rparr>])"
    by (simp add: sync_job_create_def example_db_at_def Let_def)
  show ?thesis
    unfolding t1 t2 t3 c2 w2 using r0 by (simp add: l)
qed

subsection \<open>Saving a file entity (file\_manager.py)\<close>

lemma map_of_dict_set: "map_of (dict_set d k v) = (map_of d)(k \<mapsto> v)"
  by (induction d) (auto simp: fun_eq_iff)

lemma byte_count_snoc: "byte_count (pre @ [c]) = byte_count pre + length c"
  by (simp add: byte_count_def)







text \<open>
  When the temporary file cannot be opened, as for a name too long for the file system,
  the function raises instead of returning the entity.
\<close>

lemma file_entity_open_failure:
  "str_truthy (download_url entity) \<Longrightarrow>
   fe_open_raises env (temp_path_of env u (name entity)) = Some e \<Longrightarrow>
   handle_file_entity env u fs stream entity max_size
     = (Inl e, fs(temp_path_of env u (name entity) := None))"
  by (simp add: handle_file_entity_def Let_def)

subsection \<open>The sync factory (factory.py)\<close>

lemma create_source_instance_direct_token:
  assumes "get_source_config db sync = Inr (conn, cfg, sm)" and "token \<noteq> []"
  shows "create_source_instance env db sync wl (Some token)
         = Inr \<lparr>si_class = sm_short_name sm, si_credentials = AccessToken token,
                si_config = cfg, si_token_provider = None\<rparr>"
  using assms by (simp add: create_source_instance_def create_source_with_token_def Let_def)

lemma create_source_instance_stored:
  assumes "get_source_config db sync = Inr (conn, cfg, sm)" and "\<not> str_truthy tok"
  shows "create_source_instance env db sync wl tok = create_source_with_credentials env db conn sm cfg wl"
  using assms by (auto simp: create_source_instance_def str_truthy_def Let_def split: option.splits)

lemma create_source_with_credentials_refresh:
  assumes "conn_integration_credential_id conn = Some crid"
    and "fdb_integration_credential_get db crid = Some cred"
    and "sm_auth_type sm = Some oauth2_with_refresh \<or> sm_auth_type sm = Some oauth2_with_refresh_rotating"
  shows "create_source_with_credentials env db conn sm cfg wl
     = (case env_get_valid_token env
               \<lparr>tp_integration_short_name = sm_short_name sm, tp_connection_id = conn_id conn,
                tp_decrypted_credential = env_decrypt env (encrypted_credentials cred),
                tp_white_label = wl\<rparr> of
          Inl e \<Rightarrow> Inl e
        | Inr token \<Rightarrow>
            Inr \<lparr>si_class = sm_short_name sm, si_credentials = AccessToken token, si_config = cfg,
                 si_token_provider =
                   (if env_has_set_token_provider env (sm_short_name sm)
                    then Some \<lparr>tp_integration_short_name = sm_short_name sm,
                               tp_connection_id = conn_id conn,
                               tp_decrypted_credential = env_decrypt env (encrypted_credentials cred),
                               tp_white_label = wl\<rparr>
                    else None)\<rparr>)"
  using assms
  by (auto simp: create_source_with_credentials_def get_integration_credential_def
      create_token_provider_if_needed_def get_source_credentials_def Let_def split: sum.splits)

lemma create_source_with_credentials_other:
  assumes "conn_integration_credential_id conn = Some crid"
    and "fdb_integration_credential_get db crid = Some cred"
    and "sm_auth_type sm \<noteq> Some oauth2_with_refresh" and "sm_auth_type sm \<noteq> Some oauth2_with_refresh_rotating"
  shows "create_source_with_credentials env db conn sm cfg wl
     = (case sm_auth_config_class sm of
          Some cls \<Rightarrow>
            (if cls \<noteq> []
             then (case env_auth_config_validate env cls (env_decrypt env (encrypted_credentials cred)) of
                     Inl e \<Rightarrow> Inl e
                   | Inr v \<Rightarrow>
                       Inr \<lparr>si_class = sm_short_name sm, si_credentials = ValidatedAuthConfig cls v,
                            si_config = cfg, si_token_provider = None\<rparr>)
             else Inr \<lparr>si_class = sm_short_name sm,
                       si_credentials = DecryptedCredential (env_decrypt env (encrypted_credentials cred)),
                       si_config = cfg, si_token_provider = None\<rparr>)
        | None \<Rightarrow>
            Inr \<lparr>si_class = sm_short_name sm,
                 si_credentials = DecryptedCredential (env_decrypt env (encrypted_credentials cred)),
                 si_config = cfg, si_token_provider = None\<rparr>)"
  using assms
  by (auto simp: create_source_with_credentials_def get_integration_credential_def
      create_token_provider_if_needed_def get_source_credentials_def Let_def
      split: sum.splits option.splits)

text \<open>
  Claim C9, as stated, fails: given a direct access token the factory creates the source
  from that token and calls neither \<open>_create_token_provider_if_needed\<close> nor
  \<open>_get_source_credentials\<close>. A source whose auth type is \<open>oauth2_with_refresh\<close> then gets
  no token provider, and a source with another auth type is created from the token, not
  from the decrypted credential or a validated auth config.
\<close>

theorem direct_access_token_skips_token_provider_counterexample:
  "sm_auth_type example_oauth_source_model = Some oauth2_with_refresh \<and>
   create_source_instance example_factory_env example_oauth_factory_db example_sync None (Some ''direct'')
     = Inr \<lparr>si_class = ''asana'', si_credentials = AccessToken ''direct'', si_config = [],
            si_token_provider = None\<rparr> \<and>
   sm_auth_type example_source_model = Some (other_auth ''api_key'') \<and>
   create_source_instance example_factory_env example_factory_db example_sync None (Some ''direct'')
     = Inr \<lparr>si_class = ''asana'', si_credentials = AccessToken ''direct'', si_config = [],
            si_token_provider = None\<rparr>"
  by (simp add: create_source_instance_def create_source_with_token_def get_source_config_def
      example_oauth_factory_db_def example_factory_db_def example_oauth_source_model_def
      example_source_model_def example_sync_def example_connection_def Let_def)

text \<open>
  Claim C9, amended. Let the source connection, its record and the source model be found.
  Given a direct access token, the factory creates the source from that token and
  constructs no token provider, whatever the auth type. Given none, and with the stored
  integration credential found: if the auth type is \<open>oauth2_with_refresh\<close> or
  \<open>oauth2_with_refresh_rotating\<close>, the factory constructs a token provider for this source,
  connection and decrypted credential, takes the source's credentials from the provider's
  \<open>get_valid_token\<close> (whose failure ends the factory), and injects the provider when the
  source class has \<open>set_token_provider\<close>; for every other auth type
  \<open>_create_token_provider_if_needed\<close> returns \<open>None\<close> and the source is created, with no
  provider injected, from the decrypted credential validated against the auth config
  class when the source model names one (a failed validation ends the factory), and from
  the decrypted credential itself when it names none.
\<close>

theorem token_provider_iff_refresh_auth_on_stored_credentials:
  "get_source_config db sync = Inr (conn, cfg, sm) \<longrightarrow>
     (token \<noteq> [] \<longrightarrow>
        create_source_instance env db sync wl (Some token)
          = Inr \<lparr>si_class = sm_short_name sm, si_credentials = AccessToken token,
                 si_config = cfg, si_token_provider = None\<rparr>) \<and>
     (\<not> str_truthy tok \<and> conn_integration_credential_id conn = Some crid \<and>
      fdb_integration_credential_get db crid = Some cred \<longrightarrow>
        (sm_auth_type sm = Some oauth2_with_refresh \<or> sm_auth_type sm = Some oauth2_with_refresh_rotating \<longrightarrow>
           create_token_provider_if_needed sm conn (env_decrypt env (encrypted_credentials cred)) wl
             = Some \<lparr>tp_integration_short_name = sm_short_name sm, tp_connection_id = conn_id conn,
                     tp_decrypted_credential = env_decrypt env (encrypted_credentials cred),
                     tp_white_label = wl\<rparr> \<and>
           create_source_instance env db sync wl tok
             = (case env_get_valid_token env
                       \<lparr>tp_integration_short_name = sm_short_name sm, tp_connection_id = conn_id conn,
                        tp_decrypted_credential = env_decrypt env (encrypted_credentials cred),
                        tp_white_label = wl\<rparr> of
                  Inl e \<Rightarrow> Inl e
                | Inr t \<Rightarrow>
                    Inr \<lparr>si_class = sm_short_name sm, si_credentials = AccessToken t, si_config = cfg,
                         si_token_provider =
                           (if env_has_set_token_provider env (sm_short_name sm)
                            then Some \<lparr>tp_integration_short_name = sm_short_name sm,
                                       tp_connection_id = conn_id conn,
                                       tp_decrypted_credential = env_decrypt env (encrypted_credentials cred),
                                       tp_white_label = wl\<rparr>
                            else None)\<rparr>)) \<and>
        (sm_auth_type sm \<noteq> Some oauth2_with_refresh \<and> sm_auth_type sm \<noteq> Some oauth2_with_refresh_rotating \<longrightarrow>
           create_token_provider_if_needed sm conn (env_decrypt env (encrypted_credentials cred)) wl = None \<and>
           create_source_instance env db sync wl tok
             = (case sm_auth_config_class sm of
                  Some cls \<Rightarrow>
                    (if cls \<noteq> []
                     then (case env_auth_config_validate env cls
                                  (env_decrypt env (encrypted_credentials cred)) of
                             Inl e \<Rightarrow> Inl e
                           | Inr v \<Rightarrow>
                               Inr \<lparr>si_class = sm_short_name sm,
                                    si_credentials = ValidatedAuthConfig cls v,
                                    si_config = cfg, si_token_provider = None\<rparr>)
                     else Inr \<lparr>si_class = sm_short_name sm,
                               si_credentials =
                                 DecryptedCredential (env_decrypt env (encrypted_credentials cred)),
                               si_config = cfg, si_token_provider = None\<rparr>)
                | None \<Rightarrow>
                    Inr \<lparr>si_class = sm_short_name sm,
                         si_credentials =
                           DecryptedCredential (env_decrypt env (encrypted_credentials cred)),
                         si_config = cfg, si_token_provider = None\<rparr>)))"
proof (intro impI conjI)
  assume g: "get_source_config db sync = Inr (conn, cfg, sm)" and "token \<noteq> []"
  then show "create_source_instance env db sync wl (Some token)
          = Inr \<lparr>si_class = sm_short_name sm, si_credentials = AccessToken token,
                 si_config = cfg, si_token_provider = None\<rparr>"
    by (rule create_source_instance_direct_token)
next
  assume "sm_auth_type sm = Some oauth2_with_refresh \<or> sm_auth_type sm = Some oauth2_with_refresh_rotating"
  then show "create_token_provider_if_needed sm conn (env_decrypt env (encrypted_credentials cred)) wl
             = Some \<lparr>tp_integration_short_name = sm_short_name sm, tp_connection_id = conn_id conn,
                     tp_decrypted_credential = env_decrypt env (encrypted_credentials cred),
                     tp_white_label = wl\<rparr>"
    by (auto simp: create_token_provider_if_needed_def)
next
  assume g: "get_source_config db sync = Inr (conn, cfg, sm)"
    and s: "\<not> str_truthy tok \<and> conn_integration_credential_id conn = Some crid \<and>
      fdb_integration_credential_get db crid = Some cred"
    and r: "sm_auth_type sm = Some oauth2_with_refresh \<or> sm_auth_type sm = Some oauth2_with_refresh_rotating"
  from s have c: "conn_integration_credential_id conn = Some crid"
    "fdb_integration_credential_get db crid = Some cred" and nt: "\<not> str_truthy tok" by simp_all
  show "create_source_instance env db sync wl tok
             = (case env_get_valid_token env
                       \<lparr>tp_integration_short_name = sm_short_name sm, tp_connection_id = conn_id conn,
                        tp_decrypted_credential = env_decrypt env (encrypted_credentials cred),
                        tp_white_label = wl\<rparr> of
                  Inl e \<Rightarrow> Inl e
                | Inr t \<Rightarrow>
                    Inr \<lparr>si_class = sm_short_name sm, si_credentials = AccessToken t, si_config = cfg,
                         si_token_provider =
                           (if env_has_set_token_provider env (sm_short_name sm)
                            then Some \<lparr>tp_integration_short_name = sm_short_name sm,
                                       tp_connection_id = conn_id conn,
                                       tp_decrypted_credential = env_decrypt env (encrypted_credentials cred),
                                       tp_white_label = wl\<rparr>
                            else None)\<rparr>)"
    unfolding create_source_instance_stored[OF g nt]
    by (rule create_source_with_credentials_refresh[OF c r])
next
  assume "sm_auth_type sm \<noteq> Some oauth2_with_refresh \<and> sm_auth_type sm \<noteq> Some oauth2_with_refresh_rotating"
  then show "create_token_provider_if_needed sm conn (env_decrypt env (encrypted_credentials cred)) wl = None"
    by (simp add: create_token_provider_if_needed_def)
next
  assume g: "get_source_config db sync = Inr (conn, cfg, sm)"
    and s: "\<not> str_truthy tok \<and> conn_integration_credential_id conn = Some crid \<and>
      fdb_integration_credential_get db crid = Some cred"
    and r: "sm_auth_type sm \<noteq> Some oauth2_with_refresh \<and> sm_auth_type sm \<noteq> Some oauth2_with_refresh_rotating"
  from s have c: "conn_integration_credential_id conn = Some crid"
    "fdb_integration_credential_get db crid = Some cred" and nt: "\<not> str_truthy tok" by simp_all
  from r have r': "sm_auth_type sm \<noteq> Some oauth2_with_refresh" "sm_auth_type sm \<noteq> Some oauth2_with_refresh_rotating"
    by simp_all
  show "create_source_instance env db sync wl tok
             = (case sm_auth_config_class sm of
                  Some cls \<Rightarrow>
                    (if cls \<noteq> []
                     then (case env_auth_config_validate env cls
                                  (env_decrypt env (encrypted_credentials cred)) of
                             Inl e \<Rightarrow> Inl e
                           | Inr v \<Rightarrow>
                               Inr \<lparr>si_class = sm_short_name sm,
                                    si_credentials = ValidatedAuthConfig cls v,
                                    si_config = cfg, si_token_provider = None\<rparr>)
                     else Inr \<lparr>si_class = sm_short_name sm,
                               si_credentials =
                                 DecryptedCredential (env_decrypt env (encrypted_credentials cred)),
                               si_config = cfg, si_token_provider = None\<rparr>)
                | None \<Rightarrow>
                    Inr \<lparr>si_class = sm_short_name sm,
                         si_credentials =
                           DecryptedCredential (env_decrypt env (encrypted_credentials cred)),
                         si_config = cfg, si_token_provider = None\<rparr>)"
    unfolding create_source_instance_stored[OF g nt]
    by (rule create_source_with_credentials_other[OF c r'])
qed

theorem token_provider_iff_refresh_auth_on_stored_credentials_witness:
  "get_source_config example_oauth_factory_db example_sync
     = Inr (\<lparr>conn_id = 2, conn_short_name = ''asana'', conn_integration_credential_id = Some 3\<rparr>,
            [], example_oauth_source_model) \<and>
   create_source_instance example_factory_env example_oauth_factory_db example_sync None None
     = Inr \<lparr>si_class = ''asana'', si_credentials = AccessToken ''token'', si_config = [],
            si_token_provider =
              Some \<lparr>tp_integration_short_name = ''asana'', tp_connection_id = 2,
                    tp_decrypted_credential = [(''api_key'', ''k'')], tp_white_label = None\<rparr>\<rparr> \<and>
   create_source_instance example_factory_env example_factory_db example_sync None None
     = Inr \<lparr>si_class = ''asana'', si_credentials = DecryptedCredential [(''api_key'', ''k'')],
            si_config = [], si_token_provider = None\<rparr> \<and>
   create_source_instance example_factory_env example_oauth_factory_db example_sync None (Some ''direct'')
     = Inr \<lparr>si_class = ''asana'', si_credentials = AccessToken ''direct'', si_config = [],
            si_token_provider = None\<rparr>"
proof -
  let ?conn = "\<lparr>conn_id = 2, conn_short_name = ''asana'', conn_integration_credential_id = Some 3\<rparr>"
  let ?cred = "\<lparr>encrypted_credentials = [(''api_key'', ''k'')]\<rparr> :: string dict integration_credential"
  have g1: "get_source_config example_oauth_factory_db example_sync
     = Inr (?conn, [], example_oauth_source_model)"
    by (simp add: get_source_config_def example_oauth_factory_db_def example_factory_db_def
        example_sync_def example_connection_def)
  have g2: "get_source_config example_factory_db example_sync = Inr (?conn, [], example_source_model)"
    by (simp add: get_source_config_def example_factory_db_def example_sync_def example_connection_def)
  have c1: "fdb_integration_credential_get example_oauth_factory_db 3 = Some ?cred"
    and c2: "fdb_integration_credential_get example_factory_db 3 = Some ?cred"
    by (simp_all add: example_oauth_factory_db_def example_factory_db_def)
  note t1 = token_provider_iff_refresh_auth_on_stored_credentials
    [where db = example_oauth_factory_db and sync = example_sync and conn = ?conn and cfg = "[]"
       and sm = example_oauth_source_model and env = example_factory_env and wl = None
       and tok = None and token = "''direct''" and crid = 3 and cred = ?cred, rule_format, OF g1]
  note t2 = token_provider_iff_refresh_auth_on_stored_credentials
    [where db = example_factory_db and sync = example_sync and conn = ?conn and cfg = "[]"
       and sm = example_source_model and env = example_factory_env and wl = None
       and tok = None and token = "''direct''" and crid = 3 and cred = ?cred, rule_format, OF g2]
  have a: "create_source_instance example_factory_env example_oauth_factory_db example_sync None None
     = Inr \<lparr>si_class = ''asana'', si_credentials = AccessToken ''token'', si_config = [],
            si_token_provider =
              Some \<lparr>tp_integration_short_name = ''asana'', tp_connection_id = 2,
                    tp_decrypted_credential = [(''api_key'', ''k'')], tp_white_label = None\<rparr>\<rparr>"
    using t1 c1
    by (simp add: str_truthy_def example_oauth_source_model_def example_source_model_def
        example_factory_env_def)
  have b: "create_source_instance example_factory_env example_factory_db example_sync None None
     = Inr \<lparr>si_class = ''asana'', si_credentials = DecryptedCredential [(''api_key'', ''k'')],
            si_config = [], si_token_provider = None\<rparr>"
    using t2 c2
    by (simp add: str_truthy_def example_source_model_def example_factory_env_def)
  have c: "create_source_instance example_factory_env example_oauth_factory_db example_sync None (Some ''direct'')
     = Inr \<lparr>si_class = ''asana'', si_credentials = AccessToken ''direct'', si_config = [],
            si_token_provider = None\<rparr>"
    using t1 by (simp add: example_oauth_source_model_def example_source_model_def)
  from g1 a b c show ?thesis by simp
qed

text \<open>
  Claim C5 names six configuration entities whose absence must end the factory with a
  \<open>NotFoundException\<close>. For a missing destination model the code does not: the model is
  passed to \<open>model_validate\<close> before it is tested, so the factory ends with a
  \<open>ValidationError\<close>, and no input at all reaches the \<open>NotFoundException\<close> written for
  that case.
\<close>

theorem missing_destination_model_not_reported_as_not_found:
  "fdb_destination_get_by_short_name example_factory_db ''qdrant'' = None \<and>
   create_sync_context example_factory_env example_factory_db example_sync 9 None None
     = Inl (ValidationError ''Input should be a valid dictionary or object to extract fields from'') \<and>
   create_destination_instances db sync collection_id
     \<noteq> Inl (NotFoundException ''Destination not found for connection'')"
proof -
  have "create_destination_instances db sync collection_id
     \<noteq> Inl (NotFoundException ''Destination not found for connection'')"
    by (auto simp: create_destination_instances_def destination_model_validate_def Let_def
        split: list.splits option.splits)
  moreover have "create_sync_context example_factory_env example_factory_db example_sync 9 None None
     = Inl (ValidationError ''Input should be a valid dictionary or object to extract fields from'')"
    by (simp add: create_sync_context_def create_source_instance_def get_source_config_def
        create_source_with_credentials_def get_integration_credential_def
        get_source_credentials_def create_token_provider_if_needed_def
        create_destination_instances_def destination_model_validate_def
        example_factory_env_def example_factory_db_def example_sync_def example_connection_def
        example_source_model_def Let_def)
  ultimately show ?thesis by (simp add: example_factory_db_def)
qed

text \<open>
  The other five entities of claim C5 are reported as claimed: a missing source
  connection, source connection record or source model, a missing integration credential
  when no direct access token is given, and a missing destination connection each end the
  factory with a \<open>NotFoundException\<close>.
\<close>

lemma missing_configuration_not_found:
  "(fdb_connection_get db (fsync_source_connection_id sync) = None \<or>
    fdb_source_connection_get_by_sync_id db (fsync_id sync) = None \<or>
    (\<exists>c. fdb_connection_get db (fsync_source_connection_id sync) = Some c \<and>
         fdb_source_get_by_short_name db (conn_short_name c) = None)
    \<longrightarrow> (\<exists>m. create_sync_context env db sync collection_id wl tok = Inl (NotFoundException m))) \<and>
   (get_source_config db sync = Inr (c, cfg, sm) \<and> \<not> str_truthy tok \<and>
    (conn_integration_credential_id c = None \<or>
     (\<exists>cid. conn_integration_credential_id c = Some cid \<and> fdb_integration_credential_get db cid = None))
    \<longrightarrow> (\<exists>m. create_sync_context env db sync collection_id wl tok = Inl (NotFoundException m))) \<and>
   (create_source_instance env db sync wl tok = Inr src \<and>
    fsync_destination_connection_ids sync = d # ds \<and> fdb_connection_get db d = None
    \<longrightarrow> (\<exists>m. create_sync_context env db sync collection_id wl tok = Inl (NotFoundException m)))"
proof (intro conjI impI)
  assume "fdb_connection_get db (fsync_source_connection_id sync) = None \<or>
    fdb_source_connection_get_by_sync_id db (fsync_id sync) = None \<or>
    (\<exists>c. fdb_connection_get db (fsync_source_connection_id sync) = Some c \<and>
         fdb_source_get_by_short_name db (conn_short_name c) = None)"
  then have "\<exists>m. get_source_config db sync = Inl (NotFoundException m)"
    by (auto simp: get_source_config_def Let_def split: option.splits)
  then show "\<exists>m. create_sync_context env db sync collection_id wl tok = Inl (NotFoundException m)"
    by (auto simp: create_sync_context_def create_source_instance_def)
next
  assume a: "get_source_config db sync = Inr (c, cfg, sm) \<and> \<not> str_truthy tok \<and>
    (conn_integration_credential_id c = None \<or>
     (\<exists>cid. conn_integration_credential_id c = Some cid \<and> fdb_integration_credential_get db cid = None))"
  then have "\<exists>m. create_source_with_credentials env db c sm cfg wl = Inl (NotFoundException m)"
    by (auto simp: create_source_with_credentials_def get_integration_credential_def)
  with a have "\<exists>m. create_source_instance env db sync wl tok = Inl (NotFoundException m)"
    by (auto simp: create_source_instance_def str_truthy_def Let_def split: option.splits)
  then show "\<exists>m. create_sync_context env db sync collection_id wl tok = Inl (NotFoundException m)"
    by (auto simp: create_sync_context_def)
next
  assume "create_source_instance env db sync wl tok = Inr src \<and>
    fsync_destination_connection_ids sync = d # ds \<and> fdb_connection_get db d = None"
  then show "\<exists>m. create_sync_context env db sync collection_id wl tok = Inl (NotFoundException m)"
    by (simp add: create_sync_context_def create_destination_instances_def)
qed

subsection \<open>Refreshing an access token (services.py)\<close>

lemma refresh_access_token_Inr:
  assumes "refresh_access_token env db n cid dc wl = Inr (db', resp)"
  shows "\<exists>cfg. renv_settings env n = Some cfg \<and>
               handle_token_response env db resp cfg cid = Inr (db', resp)"
proof -
  from assms obtain cfg where c: "renv_settings env n = Some cfg"
    by (auto simp: refresh_access_token_def get_integration_config_def split: sum.splits option.splits)
  from assms c obtain r where h: "handle_token_response env db r cfg cid = Inr (db', resp)"
    by (auto simp: refresh_access_token_def get_integration_config_def Let_def
        split: sum.splits prod.splits)
  then have "r = resp"
    by (auto simp: handle_token_response_def Let_def split: if_splits option.splits)
  with c h show ?thesis by blast
qed

text \<open>
  Claim C2. Whenever \<open>refresh_access_token\<close> returns a token response: if the integration's
  auth type is \<open>oauth2_with_refresh_rotating\<close>, the database it leaves holds, for the
  credential of the connection, the stored credential with its refresh token replaced by
  the one of the response and encrypted again, and this is the one update made; for any
  other auth type the database is left as it was, with no update.
\<close>

theorem rotating_refresh_token_persisted:
  assumes "refresh_access_token env db n cid dc wl = Inr (db', resp)"
  shows "\<exists>cfg. renv_settings env n = Some cfg \<and>
     (oa_auth_type cfg = oauth2_with_refresh_rotating \<longrightarrow>
        (\<exists>conn crid cred.
           rdb_connections db cid = Some conn \<and> conn_integration_credential_id conn = Some crid \<and>
           rdb_credentials db crid = Some cred \<and>
           rdb_credentials db' crid
             = Some \<lparr>encrypted_credentials =
                       renv_encrypt env (dict_set (renv_decrypt env (encrypted_credentials cred))
                                           ''refresh_token'' (tr_refresh_token resp))\<rparr> \<and>
           rdb_updates db'
             = rdb_updates db @
                 [(crid, renv_encrypt env (dict_set (renv_decrypt env (encrypted_credentials cred))
                                             ''refresh_token'' (tr_refresh_token resp)))])) \<and>
     (oa_auth_type cfg \<noteq> oauth2_with_refresh_rotating \<longrightarrow> db' = db)"
proof -
  from refresh_access_token_Inr[OF assms] obtain cfg where
    c: "renv_settings env n = Some cfg"
    and h: "handle_token_response env db resp cfg cid = Inr (db', resp)" by blast
  have "oa_auth_type cfg \<noteq> oauth2_with_refresh_rotating \<longrightarrow> db' = db"
    using h by (auto simp: handle_token_response_def)
  moreover have "oa_auth_type cfg = oauth2_with_refresh_rotating \<longrightarrow>
        (\<exists>conn crid cred.
           rdb_connections db cid = Some conn \<and> conn_integration_credential_id conn = Some crid \<and>
           rdb_credentials db crid = Some cred \<and>
           rdb_credentials db' crid
             = Some \<lparr>encrypted_credentials =
                       renv_encrypt env (dict_set (renv_decrypt env (encrypted_credentials cred))
                                           ''refresh_token'' (tr_refresh_token resp))\<rparr> \<and>
           rdb_updates db'
             = rdb_updates db @
                 [(crid, renv_encrypt env (dict_set (renv_decrypt env (encrypted_credentials cred))
                                             ''refresh_token'' (tr_refresh_token resp)))])"
    using h by (auto simp: handle_token_response_def Let_def split: option.splits)
  ultimately show ?thesis using c by blast
qed

theorem rotating_refresh_token_persisted_witness:
  "refresh_access_token example_refresh_env example_refresh_db ''dropbox'' 2
     [(''refresh_token'', Some ''r1'')] None
   = Inr (\<lparr>rdb_connections = example_refresh_connection,
           rdb_credentials = example_refresh_credential
             (3 \<mapsto> \<lparr>encrypted_credentials = [(''refresh_token'', Some ''r2'')]\<rparr>),
           rdb_updates = [(3, [(''refresh_token'', Some ''r2'')])]\<rparr>,
          \<lparr>tr_access_token = ''a2'', tr_refresh_token = Some ''r2''\<rparr>) \<and>
   refresh_access_token example_refresh_env example_refresh_db ''gmail'' 2
     [(''refresh_token'', Some ''r1'')] None
   = Inr (example_refresh_db, \<lparr>tr_access_token = ''a2'', tr_refresh_token = Some ''r2''\<rparr>)"
proof -
  have 1: "refresh_access_token example_refresh_env example_refresh_db ''dropbox'' 2
     [(''refresh_token'', Some ''r1'')] None
   = Inr (\<lparr>rdb_connections = example_refresh_connection,
           rdb_credentials = example_refresh_credential
             (3 \<mapsto> \<lparr>encrypted_credentials = [(''refresh_token'', Some ''r2'')]\<rparr>),
           rdb_updates = [(3, [(''refresh_token'', Some ''r2'')])]\<rparr>,
          \<lparr>tr_access_token = ''a2'', tr_refresh_token = Some ''r2''\<rparr>)"
    by (simp add: refresh_access_token_def get_refresh_token_def get_integration_config_def
        get_client_credentials_def prepare_token_request_def handle_token_response_def
        example_refresh_env_def example_refresh_db_def example_settings_def
        example_refresh_connection_def example_refresh_credential_def dict_get_def Let_def)
  have 2: "refresh_access_token example_refresh_env example_refresh_db ''gmail'' 2
     [(''refresh_token'', Some ''r1'')] None
   = Inr (example_refresh_db, \<lparr>tr_access_token = ''a2'', tr_refresh_token = Some ''r2''\<rparr>)"
    by (simp add: refresh_access_token_def get_refresh_token_def get_integration_config_def
        get_client_credentials_def prepare_token_request_def handle_token_response_def
        example_refresh_env_def example_settings_def dict_get_def Let_def)
  from rotating_refresh_token_persisted[OF 1] rotating_refresh_token_persisted[OF 2] 1 2
  show ?thesis by simp
qed

end
